theory Spec2Isabelle
  imports Complex_Main
begin

section \<open>Tensor shapes, failures and the framework layers used by the model file\<close>

text \<open>
  \<open>base_model.py\<close> composes layers of the tensor framework (\<open>torch.nn\<close>). What the file
  itself decides is the shape algebra: which layer is built with which channel counts,
  kernel, stride and padding, in which order the layers run, how skip tensors are padded
  or targeted, and how the weights are initialised. The embedding therefore follows every
  tensor by its size, a 4-tuple (batch, channels, height, width) as \<open>x.size()\<close> returns it,
  and every exception the framework raises on a size is a value of \<open>error\<close>.
  Tensor entries are floating point numbers computed by the framework's kernels and are
  not part of the model.

  The layers of the framework are written down by the rules the framework documents for
  them: the output size of a convolution, a pooling, an upsampling and a transposed
  convolution, the checks each layer makes on its input, and what a batch norm does to its
  buffers. A forward function takes the mode of the model (\<open>self.training\<close>, which
  \<open>train()\<close> and \<open>eval()\<close> set on a model and all its layers, and which is \<open>True\<close> after
  construction), the module, the input size and the buffers of the batch norms below the
  module; it returns the size of the output, or the error, together with the buffers after
  the call.
\<close>

type_synonym shape = "nat \<times> nat \<times> nat \<times> nat"

definition batch_of :: "shape \<Rightarrow> nat" where
  "batch_of x = (case x of (n, c, h, w) \<Rightarrow> n)"

definition channels_of :: "shape \<Rightarrow> nat" where
  "channels_of x = (case x of (n, c, h, w) \<Rightarrow> c)"

definition height_of :: "shape \<Rightarrow> nat" where
  "height_of x = (case x of (n, c, h, w) \<Rightarrow> h)"

definition width_of :: "shape \<Rightarrow> nat" where
  "width_of x = (case x of (n, c, h, w) \<Rightarrow> w)"

datatype error =
    Channel_mismatch          \<comment> \<open>RuntimeError: the layer expects another number of channels\<close>
  | Kernel_too_large          \<comment> \<open>RuntimeError: kernel size greater than the padded input\<close>
  | Non_positive_stride       \<comment> \<open>RuntimeError: non-positive stride is not supported\<close>
  | Output_too_small          \<comment> \<open>RuntimeError: the computed output size is not positive\<close>
  | Empty_input               \<comment> \<open>RuntimeError: non-empty tensor expected, sizes should be greater than 0\<close>
  | Zero_channels             \<comment> \<open>RuntimeError: a convolution without input or output channels\<close>
  | One_value_per_channel     \<comment> \<open>ValueError: expected more than 1 value per channel when training\<close>
  | Output_size_out_of_range  \<comment> \<open>ValueError: requested output size outside the reachable range\<close>
  | Size_mismatch             \<comment> \<open>RuntimeError: sizes of tensors must match (cat, +)\<close>
  | Negative_size             \<comment> \<open>RuntimeError: negative padding resulted in a negative size\<close>
  | Zero_division             \<comment> \<open>ZeroDivisionError of the Python float division\<close>

text \<open>How a weight or bias tensor was last filled: by \<open>reset_parameters\<close> of a
  convolution, which the framework's constructor of the layer runs and which draws from a
  uniform distribution bounded by the fan-in; by \<open>normal_(mean, std)\<close>; or with one value,
  by \<open>fill_(v)\<close>, \<open>zero_()\<close>, and by the framework's constructor of a batch norm, which
  fills the weight with ones and the bias with zeros.\<close>

datatype init = Reset_parameters | Normal_init real real | Fill_init real

text \<open>\<open>nn.Conv2d\<close> and \<open>nn.ConvTranspose2d\<close> share their attributes (the framework's
  \<open>_ConvNd\<close>). All kernels, strides and paddings of the file are square, dilation and
  groups keep their default 1, and \<open>kernel_size\<close> is kept as the pair the initialisation
  loop indexes.\<close>

record ConvNd =
  in_channels :: nat
  out_channels :: nat
  kernel_size :: "nat \<times> nat"
  stride :: nat
  padding :: nat
  bias :: bool
  weight :: init

definition Conv2d :: "nat \<Rightarrow> nat \<Rightarrow> nat \<Rightarrow> nat \<Rightarrow> nat \<Rightarrow> bool \<Rightarrow> ConvNd" where
  "Conv2d in_ch out_ch k s p b =
     \<lparr>in_channels = in_ch, out_channels = out_ch, kernel_size = (k, k), stride = s,
      padding = p, bias = b, weight = Reset_parameters\<rparr>"

definition ConvTranspose2d :: "nat \<Rightarrow> nat \<Rightarrow> nat \<Rightarrow> nat \<Rightarrow> nat \<Rightarrow> bool \<Rightarrow> ConvNd" where
  "ConvTranspose2d in_ch out_ch k s p b =
     \<lparr>in_channels = in_ch, out_channels = out_ch, kernel_size = (k, k), stride = s,
      padding = p, bias = b, weight = Reset_parameters\<rparr>"

text \<open>\<open>nn.BatchNorm2d(num_features)\<close> with the defaults \<open>affine=True\<close>,
  \<open>track_running_stats=True\<close>; the constructor leaves the weight all ones and the bias all
  zeros. Besides the learned \<open>weight\<close> and \<open>bias\<close> the layer owns
  the buffers \<open>running_mean\<close>, \<open>running_var\<close> and \<open>num_batches_tracked\<close>; they are kept
  apart from the layer's attributes, as the state a forward call threads through.\<close>

record BatchNorm2d =
  num_features :: nat
  bn_weight :: init
  bn_bias :: init

definition BatchNorm2d_init :: "nat \<Rightarrow> BatchNorm2d" where
  "BatchNorm2d_init n = \<lparr>num_features = n, bn_weight = Fill_init 1, bn_bias = Fill_init 0\<rparr>"

text \<open>The buffers of one batch-norm layer, read by their integer part: the counter
  \<open>num_batches_tracked\<close>. The framework updates \<open>running_mean\<close> and \<open>running_var\<close> in
  exactly the calls in which it advances this counter (a call in training mode).\<close>

type_synonym bn_buffers = nat

text \<open>\<open>Conv2d.forward\<close>: the stride must be positive, the weight must have an output
  channel, the input must have \<open>in_channels\<close> channels, the padded input must hold the
  kernel, and an input without channels is refused; each spatial size becomes
  \<open>floor((size + 2 * padding - kernel) / stride) + 1\<close>.\<close>

definition Conv2d_forward :: "ConvNd \<Rightarrow> shape \<Rightarrow> error + shape" where
  "Conv2d_forward m x = (case x of (n, c, h, w) \<Rightarrow>
     if stride m = 0 then Inl Non_positive_stride
     else if out_channels m = 0 then Inl Zero_channels
     else if c \<noteq> in_channels m then Inl Channel_mismatch
     else if h + 2 * padding m < fst (kernel_size m) \<or> w + 2 * padding m < snd (kernel_size m)
       then Inl Kernel_too_large
     else if c = 0 then Inl Zero_channels
     else Inr (n, out_channels m,
               (h + 2 * padding m - fst (kernel_size m)) div stride m + 1,
               (w + 2 * padding m - snd (kernel_size m)) div stride m + 1))"

text \<open>\<open>ConvTranspose2d.forward(input, output_size)\<close>. Without \<open>output_size\<close> each spatial
  size becomes \<open>(size - 1) * stride - 2 * padding + kernel\<close>. With it, the framework first
  computes that minimum per dimension, raises ValueError unless the requested size lies
  between the minimum and the minimum plus \<open>stride - 1\<close>, and pads the output up to the
  requested size. A size tuple of length four is cut to its last two entries. A layer
  without input channels or without output channels is refused.\<close>

definition deconv_min_size :: "ConvNd \<Rightarrow> nat \<Rightarrow> nat \<Rightarrow> int" where
  "deconv_min_size m k sz = (int sz - 1) * int (stride m) - 2 * int (padding m) + (int k - 1) + 1"

definition ConvTranspose2d_forward :: "ConvNd \<Rightarrow> shape \<Rightarrow> shape option \<Rightarrow> error + shape" where
  "ConvTranspose2d_forward m x output_size = (case x of (n, c, h, w) \<Rightarrow>
     let min_h = deconv_min_size m (fst (kernel_size m)) h;
         min_w = deconv_min_size m (snd (kernel_size m)) w
     in case output_size of
          None \<Rightarrow>
            if stride m = 0 then Inl Non_positive_stride
            else if in_channels m = 0 then Inl Zero_channels
            else if c \<noteq> in_channels m then Inl Channel_mismatch
            else if out_channels m = 0 then Inl Zero_channels
            else if min_h \<le> 0 \<or> min_w \<le> 0 then Inl Output_too_small
            else Inr (n, out_channels m, nat min_h, nat min_w)
        | Some (on, oc, oh, ow) \<Rightarrow>
            if int oh < min_h \<or> min_h + int (stride m) - 1 < int oh \<or>
               int ow < min_w \<or> min_w + int (stride m) - 1 < int ow
              then Inl Output_size_out_of_range
            else if stride m = 0 then Inl Non_positive_stride
            else if in_channels m = 0 then Inl Zero_channels
            else if c \<noteq> in_channels m then Inl Channel_mismatch
            else if out_channels m = 0 then Inl Zero_channels
            else if oh = 0 \<or> ow = 0 then Inl Output_too_small
            else Inr (n, out_channels m, oh, ow))"

text \<open>\<open>BatchNorm2d.forward\<close>. In training mode the layer first advances
  \<open>num_batches_tracked\<close>, then refuses an input with a single value per channel
  (\<open>size_prods\<close>, the product of all sizes but the channels, is 1), then normalises with
  the batch statistics and updates the running statistics. The number of channels must be
  \<open>num_features\<close>. In evaluation mode the buffers are only read. The size of the tensor is
  unchanged.\<close>

definition size_prods :: "shape \<Rightarrow> nat" where
  "size_prods x = (case x of (n, c, h, w) \<Rightarrow> n * h * w)"

definition BatchNorm2d_forward ::
    "bool \<Rightarrow> BatchNorm2d \<Rightarrow> shape \<Rightarrow> bn_buffers \<Rightarrow> (error + shape) \<times> bn_buffers" where
  "BatchNorm2d_forward training m x tracked =
     (let tracked = (if training then tracked + 1 else tracked)
      in if training \<and> size_prods x = 1 then (Inl One_value_per_channel, tracked)
         else if channels_of x \<noteq> num_features m then (Inl Channel_mismatch, tracked)
         else (Inr x, tracked))"

text \<open>\<open>nn.ReLU(inplace=True)\<close> keeps the size and has neither parameters nor buffers; the
  records of the blocks below do not store their ReLU attributes.\<close>

definition ReLU_forward :: "shape \<Rightarrow> shape" where
  "ReLU_forward x = x"

text \<open>\<open>nn.MaxPool2d(kernel_size)\<close>: the stride defaults to the kernel size, no padding,
  floor mode. An input without channels, rows or columns is refused; an input smaller
  than the window has output size 0 and is refused.\<close>

record MaxPool2d =
  pool_kernel_size :: nat

definition MaxPool2d_forward :: "MaxPool2d \<Rightarrow> shape \<Rightarrow> error + shape" where
  "MaxPool2d_forward m x = (case x of (n, c, h, w) \<Rightarrow>
     let k = pool_kernel_size m
     in if k = 0 then Inl Non_positive_stride
        else if c = 0 \<or> h = 0 \<or> w = 0 then Inl Empty_input
        else if h < k \<or> w < k then Inl Output_too_small
        else Inr (n, c, (h - k) div k + 1, (w - k) div k + 1))"

text \<open>\<open>nn.Upsample(scale_factor, mode='bilinear', align_corners=True)\<close>: each spatial
  size is multiplied by the scale factor; an input without channels, rows or columns is
  refused.\<close>

record Upsample =
  scale_factor :: nat

definition Upsample_forward :: "Upsample \<Rightarrow> shape \<Rightarrow> error + shape" where
  "Upsample_forward m x = (case x of (n, c, h, w) \<Rightarrow>
     if c = 0 \<or> h = 0 \<or> w = 0 \<or> h * scale_factor m = 0 \<or> w * scale_factor m = 0
       then Inl Empty_input
     else Inr (n, c, h * scale_factor m, w * scale_factor m))"

text \<open>\<open>F.pad(x, (left, right, top, bottom))\<close> pads the last dimension by \<open>left\<close> and
  \<open>right\<close> and the one before by \<open>top\<close> and \<open>bottom\<close>; a negative amount crops. The
  amounts are Python integers.\<close>

definition F_pad :: "shape \<Rightarrow> int \<times> int \<times> int \<times> int \<Rightarrow> error + shape" where
  "F_pad x pad = (case x of (n, c, h, w) \<Rightarrow> case pad of (pad_left, pad_right, pad_top, pad_bottom) \<Rightarrow>
     let new_h = int h + pad_top + pad_bottom; new_w = int w + pad_left + pad_right
     in if new_h < 0 \<or> new_w < 0 then Inl Negative_size
        else Inr (n, c, nat new_h, nat new_w))"

text \<open>\<open>torch.cat([a, b], dim=1)\<close>: all sizes but the channels must agree.\<close>

definition torch_cat :: "shape \<Rightarrow> shape \<Rightarrow> error + shape" where
  "torch_cat a b = (case a of (na, ca, ha, wa) \<Rightarrow> case b of (nb, cb, hb, wb) \<Rightarrow>
     if na = nb \<and> ha = hb \<and> wa = wb then Inr (na, ca + cb, ha, wa) else Inl Size_mismatch)"

text \<open>\<open>a + b\<close> on tensors broadcasts: two sizes of a dimension are compatible when they
  are equal or one of them is 1.\<close>

definition broadcast_dim :: "nat \<Rightarrow> nat \<Rightarrow> nat option" where
  "broadcast_dim a b = (if a = b then Some a else if a = 1 then Some b
                        else if b = 1 then Some a else None)"

definition tensor_add :: "shape \<Rightarrow> shape \<Rightarrow> error + shape" where
  "tensor_add a b = (case a of (na, ca, ha, wa) \<Rightarrow> case b of (nb, cb, hb, wb) \<Rightarrow>
     case (broadcast_dim na nb, broadcast_dim ca cb, broadcast_dim ha hb, broadcast_dim wa wb) of
       (Some n, Some c, Some h, Some w) \<Rightarrow> Inr (n, c, h, w)
     | _ \<Rightarrow> Inl Size_mismatch)"

section \<open>UNet and its building blocks\<close>

text \<open>\<open>double_conv\<close>: the \<open>nn.Sequential\<close> of lines 11-18, entries 0 to 5
  (conv, batch norm, ReLU, conv, batch norm, ReLU).\<close>

record double_conv =
  conv_0 :: ConvNd
  conv_1 :: BatchNorm2d
  conv_3 :: ConvNd
  conv_4 :: BatchNorm2d

definition double_conv_init :: "nat \<Rightarrow> nat \<Rightarrow> double_conv" where
  "double_conv_init in_ch out_ch =
     \<lparr>conv_0 = Conv2d in_ch out_ch 3 1 1 True,
      conv_1 = BatchNorm2d_init out_ch,
      conv_3 = Conv2d out_ch out_ch 3 1 1 True,
      conv_4 = BatchNorm2d_init out_ch\<rparr>"

type_synonym double_conv_buffers = "bn_buffers \<times> bn_buffers"

fun double_conv_forward ::
    "bool \<Rightarrow> double_conv \<Rightarrow> shape \<Rightarrow> double_conv_buffers \<Rightarrow> (error + shape) \<times> double_conv_buffers" where
  "double_conv_forward training m x (b1, b4) =
     (case Conv2d_forward (conv_0 m) x of Inl e \<Rightarrow> (Inl e, (b1, b4)) | Inr x \<Rightarrow>
     (case BatchNorm2d_forward training (conv_1 m) x b1 of (Inl e, b1) \<Rightarrow> (Inl e, (b1, b4)) | (Inr x, b1) \<Rightarrow>
     (case Conv2d_forward (conv_3 m) (ReLU_forward x) of Inl e \<Rightarrow> (Inl e, (b1, b4)) | Inr x \<Rightarrow>
     (case BatchNorm2d_forward training (conv_4 m) x b4 of (Inl e, b4) \<Rightarrow> (Inl e, (b1, b4)) | (Inr x, b4) \<Rightarrow>
      (Inr (ReLU_forward x), (b1, b4))))))"

record inconv =
  inconv_conv :: double_conv

definition inconv_init :: "nat \<Rightarrow> nat \<Rightarrow> inconv" where
  "inconv_init in_ch out_ch = \<lparr>inconv_conv = double_conv_init in_ch out_ch\<rparr>"

definition inconv_forward ::
    "bool \<Rightarrow> inconv \<Rightarrow> shape \<Rightarrow> double_conv_buffers \<Rightarrow> (error + shape) \<times> double_conv_buffers" where
  "inconv_forward training m x b = double_conv_forward training (inconv_conv m) x b"

text \<open>\<open>down\<close>: the \<open>nn.Sequential\<close> of \<open>MaxPool2d(2)\<close> and a \<open>double_conv\<close>.\<close>

record down =
  mpconv_0 :: MaxPool2d
  mpconv_1 :: double_conv

definition down_init :: "nat \<Rightarrow> nat \<Rightarrow> down" where
  "down_init in_ch out_ch =
     \<lparr>mpconv_0 = \<lparr>pool_kernel_size = 2\<rparr>, mpconv_1 = double_conv_init in_ch out_ch\<rparr>"

definition down_forward ::
    "bool \<Rightarrow> down \<Rightarrow> shape \<Rightarrow> double_conv_buffers \<Rightarrow> (error + shape) \<times> double_conv_buffers" where
  "down_forward training m x b =
     (case MaxPool2d_forward (mpconv_0 m) x of Inl e \<Rightarrow> (Inl e, b) | Inr x \<Rightarrow>
      double_conv_forward training (mpconv_1 m) x b)"

text \<open>\<open>up\<close>: \<open>self.up\<close> is the bilinear \<open>nn.Upsample\<close> or, with \<open>bilinear=False\<close>, a
  \<open>ConvTranspose2d(in_ch // 2, in_ch // 2, 2, stride=2)\<close>.\<close>

datatype upsampler = Bilinear Upsample | Learned ConvNd

record up =
  up_up :: upsampler
  up_conv :: double_conv

definition up_init :: "nat \<Rightarrow> nat \<Rightarrow> bool \<Rightarrow> up" where
  "up_init in_ch out_ch bilinear =
     \<lparr>up_up = (if bilinear then Bilinear \<lparr>scale_factor = 2\<rparr>
               else Learned (ConvTranspose2d (in_ch div 2) (in_ch div 2) 2 2 0 True)),
      up_conv = double_conv_init in_ch out_ch\<rparr>"

definition upsampler_forward :: "upsampler \<Rightarrow> shape \<Rightarrow> error + shape" where
  "upsampler_forward u x = (case u of
       Bilinear m \<Rightarrow> Upsample_forward m x
     | Learned m \<Rightarrow> ConvTranspose2d_forward m x None)"

text \<open>Lines 65-69 of \<open>up.forward\<close>: the two differences between the skip tensor \<open>x2\<close> and
  the upsampled \<open>x1\<close>, and the four amounts handed to \<open>F.pad\<close>. \<open>//\<close> on Python
  integers rounds towards minus infinity, as \<open>div\<close> on \<open>int\<close> does.\<close>

definition up_pad_amounts :: "shape \<Rightarrow> shape \<Rightarrow> int \<times> int \<times> int \<times> int" where
  "up_pad_amounts x1 x2 =
     (let diffY = int (height_of x2) - int (height_of x1);
          diffX = int (width_of x2) - int (width_of x1)
      in (diffX div 2, diffX - diffX div 2, diffY div 2, diffY - diffY div 2))"

text \<open>Lines 62-69: the upsampled and padded \<open>x1\<close>, the tensor that is concatenated with
  the skip tensor.\<close>

definition up_padded :: "up \<Rightarrow> shape \<Rightarrow> shape \<Rightarrow> error + shape" where
  "up_padded m x1 x2 =
     (case upsampler_forward (up_up m) x1 of Inl e \<Rightarrow> Inl e | Inr x1 \<Rightarrow>
      F_pad x1 (up_pad_amounts x1 x2))"

definition up_forward ::
    "bool \<Rightarrow> up \<Rightarrow> shape \<Rightarrow> shape \<Rightarrow> double_conv_buffers \<Rightarrow> (error + shape) \<times> double_conv_buffers" where
  "up_forward training m x1 x2 b =
     (case up_padded m x1 x2 of Inl e \<Rightarrow> (Inl e, b) | Inr x1 \<Rightarrow>
     (case torch_cat x2 x1 of Inl e \<Rightarrow> (Inl e, b) | Inr x \<Rightarrow>
      double_conv_forward training (up_conv m) x b))"

record outconv =
  outconv_conv :: ConvNd

definition outconv_init :: "nat \<Rightarrow> nat \<Rightarrow> outconv" where
  "outconv_init in_ch out_ch = \<lparr>outconv_conv = Conv2d in_ch out_ch 1 1 0 True\<rparr>"

definition outconv_forward :: "outconv \<Rightarrow> shape \<Rightarrow> error + shape" where
  "outconv_forward m x = Conv2d_forward (outconv_conv m) x"

text \<open>\<open>UNet\<close>, lines 92-117. The constructor runs no initialisation of its own: every
  layer keeps what the framework's constructor gave it.\<close>

record UNet =
  inc :: inconv
  down1 :: down
  down2 :: down
  down3 :: down
  down4 :: down
  up1 :: up
  up2 :: up
  up3 :: up
  up4 :: up
  outc :: outconv

definition UNet_init :: "nat \<Rightarrow> nat \<Rightarrow> UNet" where
  "UNet_init n_channels n_classes =
     \<lparr>inc = inconv_init n_channels 64,
      down1 = down_init 64 128,
      down2 = down_init 128 256,
      down3 = down_init 256 512,
      down4 = down_init 512 512,
      up1 = up_init 1024 256 True,
      up2 = up_init 512 128 True,
      up3 = up_init 256 64 True,
      up4 = up_init 128 64 True,
      outc = outconv_init 64 n_classes\<rparr>"

text \<open>The buffers of the nine \<open>double_conv\<close> blocks of a UNet, in the order
  inc, down1, down2, down3, down4, up1, up2, up3, up4.\<close>

type_synonym UNet_buffers =
  "double_conv_buffers \<times> double_conv_buffers \<times> double_conv_buffers \<times> double_conv_buffers \<times>
   double_conv_buffers \<times> double_conv_buffers \<times> double_conv_buffers \<times> double_conv_buffers \<times>
   double_conv_buffers"

fun UNet_forward :: "bool \<Rightarrow> UNet \<Rightarrow> shape \<Rightarrow> UNet_buffers \<Rightarrow> (error + shape) \<times> UNet_buffers" where
  "UNet_forward training m x (b0, d1, d2, d3, d4, u1, u2, u3, u4) =
     (case inconv_forward training (inc m) x b0 of
        (Inl e, b0) \<Rightarrow> (Inl e, (b0, d1, d2, d3, d4, u1, u2, u3, u4)) | (Inr x1, b0) \<Rightarrow>
     (case down_forward training (down1 m) x1 d1 of
        (Inl e, d1) \<Rightarrow> (Inl e, (b0, d1, d2, d3, d4, u1, u2, u3, u4)) | (Inr x2, d1) \<Rightarrow>
     (case down_forward training (down2 m) x2 d2 of
        (Inl e, d2) \<Rightarrow> (Inl e, (b0, d1, d2, d3, d4, u1, u2, u3, u4)) | (Inr x3, d2) \<Rightarrow>
     (case down_forward training (down3 m) x3 d3 of
        (Inl e, d3) \<Rightarrow> (Inl e, (b0, d1, d2, d3, d4, u1, u2, u3, u4)) | (Inr x4, d3) \<Rightarrow>
     (case down_forward training (down4 m) x4 d4 of
        (Inl e, d4) \<Rightarrow> (Inl e, (b0, d1, d2, d3, d4, u1, u2, u3, u4)) | (Inr x5, d4) \<Rightarrow>
     (case up_forward training (up1 m) x5 x4 u1 of
        (Inl e, u1) \<Rightarrow> (Inl e, (b0, d1, d2, d3, d4, u1, u2, u3, u4)) | (Inr x, u1) \<Rightarrow>
     (case up_forward training (up2 m) x x3 u2 of
        (Inl e, u2) \<Rightarrow> (Inl e, (b0, d1, d2, d3, d4, u1, u2, u3, u4)) | (Inr x, u2) \<Rightarrow>
     (case up_forward training (up3 m) x x2 u3 of
        (Inl e, u3) \<Rightarrow> (Inl e, (b0, d1, d2, d3, d4, u1, u2, u3, u4)) | (Inr x, u3) \<Rightarrow>
     (case up_forward training (up4 m) x x1 u4 of
        (Inl e, u4) \<Rightarrow> (Inl e, (b0, d1, d2, d3, d4, u1, u2, u3, u4)) | (Inr x, u4) \<Rightarrow>
     (case outconv_forward (outc m) x of
        Inl e \<Rightarrow> (Inl e, (b0, d1, d2, d3, d4, u1, u2, u3, u4))
      | Inr x \<Rightarrow> (Inr x, (b0, d1, d2, d3, d4, u1, u2, u3, u4))))))))))))"

section \<open>UResNet and its building blocks\<close>

text \<open>\<open>Bottleneck\<close>, lines 157-201. \<open>shortcut\<close> is a 1x1 convolution of the block's
  stride when \<open>stride > 1\<close> and \<open>None\<close> otherwise. (\<open>BasicBlock\<close>, lines 125-154, is
  instantiated by neither network and stays outside the embedding.)\<close>

record Bottleneck =
  bk_conv1 :: ConvNd
  bk_bn1 :: BatchNorm2d
  bk_conv2 :: ConvNd
  bk_bn2 :: BatchNorm2d
  bk_conv3 :: ConvNd
  bk_bn3 :: BatchNorm2d
  bk_stride :: nat
  bk_shortcut :: "ConvNd option"

definition Bottleneck_init :: "nat \<Rightarrow> nat \<Rightarrow> nat \<Rightarrow> Bottleneck" where
  "Bottleneck_init inplanes planes strd =
     \<lparr>bk_conv1 = Conv2d inplanes planes 1 1 0 False,
      bk_bn1 = BatchNorm2d_init planes,
      bk_conv2 = Conv2d planes planes 3 strd 1 False,
      bk_bn2 = BatchNorm2d_init planes,
      bk_conv3 = Conv2d planes planes 1 1 0 False,
      bk_bn3 = BatchNorm2d_init planes,
      bk_stride = strd,
      bk_shortcut = (if strd > 1 then Some (Conv2d inplanes planes 1 strd 0 False) else None)\<rparr>"

type_synonym Bottleneck_buffers = "bn_buffers \<times> bn_buffers \<times> bn_buffers"

fun Bottleneck_forward ::
    "bool \<Rightarrow> Bottleneck \<Rightarrow> shape \<Rightarrow> Bottleneck_buffers \<Rightarrow> (error + shape) \<times> Bottleneck_buffers" where
  "Bottleneck_forward training m x (b1, b2, b3) =
     (case (case bk_shortcut m of None \<Rightarrow> Inr x | Some sc \<Rightarrow> Conv2d_forward sc x) of
        Inl e \<Rightarrow> (Inl e, (b1, b2, b3)) | Inr bypass \<Rightarrow>
     (case Conv2d_forward (bk_conv1 m) x of
        Inl e \<Rightarrow> (Inl e, (b1, b2, b3)) | Inr residual \<Rightarrow>
     (case BatchNorm2d_forward training (bk_bn1 m) residual b1 of
        (Inl e, b1) \<Rightarrow> (Inl e, (b1, b2, b3)) | (Inr residual, b1) \<Rightarrow>
     (case Conv2d_forward (bk_conv2 m) (ReLU_forward residual) of
        Inl e \<Rightarrow> (Inl e, (b1, b2, b3)) | Inr residual \<Rightarrow>
     (case BatchNorm2d_forward training (bk_bn2 m) residual b2 of
        (Inl e, b2) \<Rightarrow> (Inl e, (b1, b2, b3)) | (Inr residual, b2) \<Rightarrow>
     (case Conv2d_forward (bk_conv3 m) (ReLU_forward residual) of
        Inl e \<Rightarrow> (Inl e, (b1, b2, b3)) | Inr residual \<Rightarrow>
     (case BatchNorm2d_forward training (bk_bn3 m) residual b3 of
        (Inl e, b3) \<Rightarrow> (Inl e, (b1, b2, b3)) | (Inr residual, b3) \<Rightarrow>
     (case tensor_add bypass residual of
        Inl e \<Rightarrow> (Inl e, (b1, b2, b3))
      | Inr out \<Rightarrow> (Inr (ReLU_forward out), (b1, b2, b3))))))))))"

record DoubleResNet =
  res1 :: Bottleneck
  res2 :: Bottleneck

definition DoubleResNet_init :: "nat \<Rightarrow> nat \<Rightarrow> nat \<Rightarrow> DoubleResNet" where
  "DoubleResNet_init inplanes planes strd =
     \<lparr>res1 = Bottleneck_init inplanes planes strd, res2 = Bottleneck_init planes planes 1\<rparr>"

type_synonym DoubleResNet_buffers = "Bottleneck_buffers \<times> Bottleneck_buffers"

fun DoubleResNet_forward ::
    "bool \<Rightarrow> DoubleResNet \<Rightarrow> shape \<Rightarrow> DoubleResNet_buffers \<Rightarrow> (error + shape) \<times> DoubleResNet_buffers" where
  "DoubleResNet_forward training m x (r1, r2) =
     (case Bottleneck_forward training (res1 m) x r1 of
        (Inl e, r1) \<Rightarrow> (Inl e, (r1, r2)) | (Inr out, r1) \<Rightarrow>
     (case Bottleneck_forward training (res2 m) out r2 of
        (Inl e, r2) \<Rightarrow> (Inl e, (r1, r2)) | (Inr out, r2) \<Rightarrow> (Inr out, (r1, r2))))"

text \<open>\<open>ConvTransposeLayer\<close>, lines 216-225. The constructor's \<open>stride\<close> argument is not
  used: the transposed convolution is built with \<open>stride=2\<close>. \<open>forward\<close> receives the
  size of the tensor to reach as \<open>output_size\<close>.\<close>

record ConvTransposeLayer =
  res :: Bottleneck
  deconv :: ConvNd

definition ConvTransposeLayer_init :: "nat \<Rightarrow> nat \<Rightarrow> nat \<Rightarrow> ConvTransposeLayer" where
  "ConvTransposeLayer_init inplanes outplanes strd =
     \<lparr>res = Bottleneck_init inplanes inplanes 1,
      deconv = ConvTranspose2d inplanes outplanes 3 2 1 False\<rparr>"

definition ConvTransposeLayer_forward ::
    "bool \<Rightarrow> ConvTransposeLayer \<Rightarrow> shape \<Rightarrow> shape \<Rightarrow> Bottleneck_buffers
       \<Rightarrow> (error + shape) \<times> Bottleneck_buffers" where
  "ConvTransposeLayer_forward training m x output_size b =
     (case Bottleneck_forward training (res m) x b of
        (Inl e, b) \<Rightarrow> (Inl e, b) | (Inr out, b) \<Rightarrow>
     (case ConvTranspose2d_forward (deconv m) out (Some output_size) of
        Inl e \<Rightarrow> (Inl e, b) | Inr out \<Rightarrow> (Inr out, b)))"

text \<open>\<open>UResNet\<close>, lines 228-408. \<open>UResNet_layers\<close> is the constructor up to line 289:
  the layers as the framework builds them.\<close>

record UResNet =
  self_inplanes :: nat
  self_showsizes :: bool
  conv1 :: ConvNd
  bn1 :: BatchNorm2d
  conv2 :: ConvNd
  bn2 :: BatchNorm2d
  conv3 :: ConvNd
  bn3 :: BatchNorm2d
  enc_layer1 :: DoubleResNet
  enc_layer2 :: DoubleResNet
  enc_layer3 :: DoubleResNet
  enc_layer4 :: DoubleResNet
  dec_layer4 :: ConvTransposeLayer
  dec_layer3 :: ConvTransposeLayer
  dec_layer2 :: ConvTransposeLayer
  dec_layer1 :: ConvTransposeLayer
  self_nkernels :: nat
  conv10 :: ConvNd
  bn10 :: BatchNorm2d
  conv11 :: ConvNd
  bn11 :: BatchNorm2d
  conv12 :: ConvNd
  bn12 :: BatchNorm2d
  conv13 :: ConvNd

definition make_encoding_layer :: "nat \<Rightarrow> nat \<Rightarrow> nat \<Rightarrow> DoubleResNet" where
  "make_encoding_layer inplanes planes strd = DoubleResNet_init inplanes planes strd"

definition make_decoding_layer :: "nat \<Rightarrow> nat \<Rightarrow> nat \<Rightarrow> ConvTransposeLayer" where
  "make_decoding_layer inplanes planes strd = ConvTransposeLayer_init inplanes planes strd"

definition UResNet_layers :: "nat \<Rightarrow> nat \<Rightarrow> nat \<Rightarrow> bool \<Rightarrow> UResNet" where
  "UResNet_layers num_classes input_channels inplanes showsizes =
     \<lparr>self_inplanes = inplanes,
      self_showsizes = showsizes,
      conv1 = Conv2d input_channels inplanes 3 1 1 True,
      bn1 = BatchNorm2d_init inplanes,
      conv2 = Conv2d inplanes inplanes 3 1 1 True,
      bn2 = BatchNorm2d_init inplanes,
      conv3 = Conv2d inplanes inplanes 3 1 1 True,
      bn3 = BatchNorm2d_init inplanes,
      enc_layer1 = make_encoding_layer (inplanes * 1) (inplanes * 2) 2,
      enc_layer2 = make_encoding_layer (inplanes * 2) (inplanes * 4) 2,
      enc_layer3 = make_encoding_layer (inplanes * 4) (inplanes * 8) 2,
      enc_layer4 = make_encoding_layer (inplanes * 8) (inplanes * 16) 2,
      dec_layer4 = make_decoding_layer (inplanes * 16) (inplanes * 8) 2,
      dec_layer3 = make_decoding_layer (inplanes * 8 * 2) (inplanes * 4) 2,
      dec_layer2 = make_decoding_layer (inplanes * 4 * 2) (inplanes * 2) 2,
      dec_layer1 = make_decoding_layer (inplanes * 2 * 2) (inplanes * 1) 2,
      self_nkernels = 16,
      conv10 = Conv2d inplanes 16 3 1 1 True,
      bn10 = BatchNorm2d_init 16,
      conv11 = Conv2d 16 (16 * 2) 3 1 1 True,
      bn11 = BatchNorm2d_init (16 * 2),
      conv12 = Conv2d (16 * 2) 16 3 1 1 True,
      bn12 = BatchNorm2d_init 16,
      conv13 = Conv2d 16 num_classes 1 1 0 True\<rparr>"

text \<open>The buffers of a UResNet: the three batch norms of the stem, the four encoder
  layers, the four decoder layers (in the order they run), the three batch norms of the
  final stem.\<close>

type_synonym UResNet_buffers =
  "bn_buffers \<times> bn_buffers \<times> bn_buffers \<times>
   DoubleResNet_buffers \<times> DoubleResNet_buffers \<times> DoubleResNet_buffers \<times> DoubleResNet_buffers \<times>
   Bottleneck_buffers \<times> Bottleneck_buffers \<times> Bottleneck_buffers \<times> Bottleneck_buffers \<times>
   bn_buffers \<times> bn_buffers \<times> bn_buffers"

fun UResNet_forward ::
    "bool \<Rightarrow> UResNet \<Rightarrow> shape \<Rightarrow> UResNet_buffers \<Rightarrow> (error + shape) \<times> UResNet_buffers" where
  "UResNet_forward training m x (s1, s2, s3, e1, e2, e3, e4, d4, d3, d2, d1, s10, s11, s12) =
     (case Conv2d_forward (conv1 m) x of
        Inl e \<Rightarrow> (Inl e, (s1, s2, s3, e1, e2, e3, e4, d4, d3, d2, d1, s10, s11, s12)) | Inr x \<Rightarrow>
     (case BatchNorm2d_forward training (bn1 m) x s1 of
        (Inl e, s1) \<Rightarrow> (Inl e, (s1, s2, s3, e1, e2, e3, e4, d4, d3, d2, d1, s10, s11, s12)) | (Inr x, s1) \<Rightarrow>
     (case Conv2d_forward (conv2 m) (ReLU_forward x) of
        Inl e \<Rightarrow> (Inl e, (s1, s2, s3, e1, e2, e3, e4, d4, d3, d2, d1, s10, s11, s12)) | Inr x \<Rightarrow>
     (case BatchNorm2d_forward training (bn2 m) x s2 of
        (Inl e, s2) \<Rightarrow> (Inl e, (s1, s2, s3, e1, e2, e3, e4, d4, d3, d2, d1, s10, s11, s12)) | (Inr x, s2) \<Rightarrow>
     (case Conv2d_forward (conv3 m) (ReLU_forward x) of
        Inl e \<Rightarrow> (Inl e, (s1, s2, s3, e1, e2, e3, e4, d4, d3, d2, d1, s10, s11, s12)) | Inr x \<Rightarrow>
     (case BatchNorm2d_forward training (bn3 m) x s3 of
        (Inl e, s3) \<Rightarrow> (Inl e, (s1, s2, s3, e1, e2, e3, e4, d4, d3, d2, d1, s10, s11, s12)) | (Inr x, s3) \<Rightarrow>
     let x0 = ReLU_forward x in
     (case DoubleResNet_forward training (enc_layer1 m) x0 e1 of
        (Inl e, e1) \<Rightarrow> (Inl e, (s1, s2, s3, e1, e2, e3, e4, d4, d3, d2, d1, s10, s11, s12)) | (Inr x1, e1) \<Rightarrow>
     (case DoubleResNet_forward training (enc_layer2 m) x1 e2 of
        (Inl e, e2) \<Rightarrow> (Inl e, (s1, s2, s3, e1, e2, e3, e4, d4, d3, d2, d1, s10, s11, s12)) | (Inr x2, e2) \<Rightarrow>
     (case DoubleResNet_forward training (enc_layer3 m) x2 e3 of
        (Inl e, e3) \<Rightarrow> (Inl e, (s1, s2, s3, e1, e2, e3, e4, d4, d3, d2, d1, s10, s11, s12)) | (Inr x3, e3) \<Rightarrow>
     (case DoubleResNet_forward training (enc_layer4 m) x3 e4 of
        (Inl e, e4) \<Rightarrow> (Inl e, (s1, s2, s3, e1, e2, e3, e4, d4, d3, d2, d1, s10, s11, s12)) | (Inr x4, e4) \<Rightarrow>
     (case ConvTransposeLayer_forward training (dec_layer4 m) x4 x3 d4 of
        (Inl e, d4) \<Rightarrow> (Inl e, (s1, s2, s3, e1, e2, e3, e4, d4, d3, d2, d1, s10, s11, s12)) | (Inr x, d4) \<Rightarrow>
     (case torch_cat x x3 of
        Inl e \<Rightarrow> (Inl e, (s1, s2, s3, e1, e2, e3, e4, d4, d3, d2, d1, s10, s11, s12)) | Inr x \<Rightarrow>
     (case ConvTransposeLayer_forward training (dec_layer3 m) x x2 d3 of
        (Inl e, d3) \<Rightarrow> (Inl e, (s1, s2, s3, e1, e2, e3, e4, d4, d3, d2, d1, s10, s11, s12)) | (Inr x, d3) \<Rightarrow>
     (case torch_cat x x2 of
        Inl e \<Rightarrow> (Inl e, (s1, s2, s3, e1, e2, e3, e4, d4, d3, d2, d1, s10, s11, s12)) | Inr x \<Rightarrow>
     (case ConvTransposeLayer_forward training (dec_layer2 m) x x1 d2 of
        (Inl e, d2) \<Rightarrow> (Inl e, (s1, s2, s3, e1, e2, e3, e4, d4, d3, d2, d1, s10, s11, s12)) | (Inr x, d2) \<Rightarrow>
     (case torch_cat x x1 of
        Inl e \<Rightarrow> (Inl e, (s1, s2, s3, e1, e2, e3, e4, d4, d3, d2, d1, s10, s11, s12)) | Inr x \<Rightarrow>
     (case ConvTransposeLayer_forward training (dec_layer1 m) x x0 d1 of
        (Inl e, d1) \<Rightarrow> (Inl e, (s1, s2, s3, e1, e2, e3, e4, d4, d3, d2, d1, s10, s11, s12)) | (Inr x, d1) \<Rightarrow>
     (case Conv2d_forward (conv10 m) x of
        Inl e \<Rightarrow> (Inl e, (s1, s2, s3, e1, e2, e3, e4, d4, d3, d2, d1, s10, s11, s12)) | Inr x \<Rightarrow>
     (case BatchNorm2d_forward training (bn10 m) x s10 of
        (Inl e, s10) \<Rightarrow> (Inl e, (s1, s2, s3, e1, e2, e3, e4, d4, d3, d2, d1, s10, s11, s12)) | (Inr x, s10) \<Rightarrow>
     (case Conv2d_forward (conv11 m) (ReLU_forward x) of
        Inl e \<Rightarrow> (Inl e, (s1, s2, s3, e1, e2, e3, e4, d4, d3, d2, d1, s10, s11, s12)) | Inr x \<Rightarrow>
     (case BatchNorm2d_forward training (bn11 m) x s11 of
        (Inl e, s11) \<Rightarrow> (Inl e, (s1, s2, s3, e1, e2, e3, e4, d4, d3, d2, d1, s10, s11, s12)) | (Inr x, s11) \<Rightarrow>
     (case Conv2d_forward (conv12 m) (ReLU_forward x) of
        Inl e \<Rightarrow> (Inl e, (s1, s2, s3, e1, e2, e3, e4, d4, d3, d2, d1, s10, s11, s12)) | Inr x \<Rightarrow>
     (case BatchNorm2d_forward training (bn12 m) x s12 of
        (Inl e, s12) \<Rightarrow> (Inl e, (s1, s2, s3, e1, e2, e3, e4, d4, d3, d2, d1, s10, s11, s12)) | (Inr x, s12) \<Rightarrow>
     (case Conv2d_forward (conv13 m) (ReLU_forward x) of
        Inl e \<Rightarrow> (Inl e, (s1, s2, s3, e1, e2, e3, e4, d4, d3, d2, d1, s10, s11, s12)) | Inr x \<Rightarrow>
      (Inr x, (s1, s2, s3, e1, e2, e3, e4, d4, d3, d2, d1, s10, s11, s12))))))))))))))))))))))))))"

section \<open>Weight initialisation\<close>

text \<open>The leaf layers that \<open>self.modules()\<close> enumerates, by the classes the
  initialisation loop tells apart. Layers without parameters (ReLU, MaxPool2d, Upsample)
  are \<open>Other_layer\<close>; the containers, which the loop skips as well, are left out.\<close>

datatype layer =
    Conv2d_layer ConvNd
  | ConvTranspose2d_layer ConvNd
  | BatchNorm2d_layer BatchNorm2d
  | Other_layer

definition double_conv_modules :: "double_conv \<Rightarrow> layer list" where
  "double_conv_modules m =
     [Conv2d_layer (conv_0 m), BatchNorm2d_layer (conv_1 m), Other_layer,
      Conv2d_layer (conv_3 m), BatchNorm2d_layer (conv_4 m), Other_layer]"

definition down_modules :: "down \<Rightarrow> layer list" where
  "down_modules m = Other_layer # double_conv_modules (mpconv_1 m)"

definition up_modules :: "up \<Rightarrow> layer list" where
  "up_modules m =
     (case up_up m of Bilinear u \<Rightarrow> Other_layer | Learned c \<Rightarrow> ConvTranspose2d_layer c)
     # double_conv_modules (up_conv m)"

definition UNet_modules :: "UNet \<Rightarrow> layer list" where
  "UNet_modules m =
     double_conv_modules (inconv_conv (inc m)) @
     down_modules (down1 m) @ down_modules (down2 m) @ down_modules (down3 m) @
     down_modules (down4 m) @
     up_modules (up1 m) @ up_modules (up2 m) @ up_modules (up3 m) @ up_modules (up4 m) @
     [Conv2d_layer (outconv_conv (outc m))]"

definition Bottleneck_modules :: "Bottleneck \<Rightarrow> layer list" where
  "Bottleneck_modules m =
     [Conv2d_layer (bk_conv1 m), BatchNorm2d_layer (bk_bn1 m),
      Conv2d_layer (bk_conv2 m), BatchNorm2d_layer (bk_bn2 m),
      Conv2d_layer (bk_conv3 m), BatchNorm2d_layer (bk_bn3 m), Other_layer] @
     (case bk_shortcut m of None \<Rightarrow> [] | Some sc \<Rightarrow> [Conv2d_layer sc])"

definition DoubleResNet_modules :: "DoubleResNet \<Rightarrow> layer list" where
  "DoubleResNet_modules m = Bottleneck_modules (res1 m) @ Bottleneck_modules (res2 m)"

definition ConvTransposeLayer_modules :: "ConvTransposeLayer \<Rightarrow> layer list" where
  "ConvTransposeLayer_modules m = Bottleneck_modules (res m) @ [ConvTranspose2d_layer (deconv m)]"

definition UResNet_modules :: "UResNet \<Rightarrow> layer list" where
  "UResNet_modules m =
     [Conv2d_layer (conv1 m), BatchNorm2d_layer (bn1 m), Other_layer,
      Conv2d_layer (conv2 m), BatchNorm2d_layer (bn2 m), Other_layer,
      Conv2d_layer (conv3 m), BatchNorm2d_layer (bn3 m), Other_layer] @
     DoubleResNet_modules (enc_layer1 m) @ DoubleResNet_modules (enc_layer2 m) @
     DoubleResNet_modules (enc_layer3 m) @ DoubleResNet_modules (enc_layer4 m) @
     ConvTransposeLayer_modules (dec_layer4 m) @ ConvTransposeLayer_modules (dec_layer3 m) @
     ConvTransposeLayer_modules (dec_layer2 m) @ ConvTransposeLayer_modules (dec_layer1 m) @
     [Conv2d_layer (conv10 m), BatchNorm2d_layer (bn10 m), Other_layer,
      Conv2d_layer (conv11 m), BatchNorm2d_layer (bn11 m), Other_layer,
      Conv2d_layer (conv12 m), BatchNorm2d_layer (bn12 m), Other_layer,
      Conv2d_layer (conv13 m)]"

text \<open>The body of the loop of lines 295-301. For a convolution or transposed convolution
  \<open>n = kernel_size[0] * kernel_size[1] * out_channels\<close> and the weight is refilled by
  \<open>normal_(0, sqrt(2. / n))\<close>; the float division raises ZeroDivisionError when \<open>n\<close> is 0.
  For a batch norm the weight is filled with 1 and the bias with 0.\<close>

definition init_n :: "ConvNd \<Rightarrow> nat" where
  "init_n m = fst (kernel_size m) * snd (kernel_size m) * out_channels m"

definition initialize_conv :: "ConvNd \<Rightarrow> ConvNd" where
  "initialize_conv m = m\<lparr>weight := Normal_init 0 (sqrt (2 / real (init_n m)))\<rparr>"

definition initialize_bn :: "BatchNorm2d \<Rightarrow> BatchNorm2d" where
  "initialize_bn m = m\<lparr>bn_weight := Fill_init 1, bn_bias := Fill_init 0\<rparr>"

fun division_raises :: "layer \<Rightarrow> bool" where
  "division_raises (Conv2d_layer m) = (init_n m = 0)"
| "division_raises (ConvTranspose2d_layer m) = (init_n m = 0)"
| "division_raises (BatchNorm2d_layer m) = False"
| "division_raises Other_layer = False"

text \<open>The loop reaches every layer below the model; the functions below apply its body
  to every layer of a block.\<close>

definition Bottleneck_initialize :: "Bottleneck \<Rightarrow> Bottleneck" where
  "Bottleneck_initialize m =
     m\<lparr>bk_conv1 := initialize_conv (bk_conv1 m), bk_bn1 := initialize_bn (bk_bn1 m),
       bk_conv2 := initialize_conv (bk_conv2 m), bk_bn2 := initialize_bn (bk_bn2 m),
       bk_conv3 := initialize_conv (bk_conv3 m), bk_bn3 := initialize_bn (bk_bn3 m),
       bk_shortcut := map_option initialize_conv (bk_shortcut m)\<rparr>"

definition DoubleResNet_initialize :: "DoubleResNet \<Rightarrow> DoubleResNet" where
  "DoubleResNet_initialize m =
     m\<lparr>res1 := Bottleneck_initialize (res1 m), res2 := Bottleneck_initialize (res2 m)\<rparr>"

definition ConvTransposeLayer_initialize :: "ConvTransposeLayer \<Rightarrow> ConvTransposeLayer" where
  "ConvTransposeLayer_initialize m =
     m\<lparr>res := Bottleneck_initialize (res m), deconv := initialize_conv (deconv m)\<rparr>"

definition UResNet_initialize :: "UResNet \<Rightarrow> UResNet" where
  "UResNet_initialize m =
     m\<lparr>conv1 := initialize_conv (conv1 m), bn1 := initialize_bn (bn1 m),
       conv2 := initialize_conv (conv2 m), bn2 := initialize_bn (bn2 m),
       conv3 := initialize_conv (conv3 m), bn3 := initialize_bn (bn3 m),
       enc_layer1 := DoubleResNet_initialize (enc_layer1 m),
       enc_layer2 := DoubleResNet_initialize (enc_layer2 m),
       enc_layer3 := DoubleResNet_initialize (enc_layer3 m),
       enc_layer4 := DoubleResNet_initialize (enc_layer4 m),
       dec_layer4 := ConvTransposeLayer_initialize (dec_layer4 m),
       dec_layer3 := ConvTransposeLayer_initialize (dec_layer3 m),
       dec_layer2 := ConvTransposeLayer_initialize (dec_layer2 m),
       dec_layer1 := ConvTransposeLayer_initialize (dec_layer1 m),
       conv10 := initialize_conv (conv10 m), bn10 := initialize_bn (bn10 m),
       conv11 := initialize_conv (conv11 m), bn11 := initialize_bn (bn11 m),
       conv12 := initialize_conv (conv12 m), bn12 := initialize_bn (bn12 m),
       conv13 := initialize_conv (conv13 m)\<rparr>"

text \<open>\<open>UResNet.__init__\<close>: the layers of lines 231-289, then the loop. The constructor
  fails when the loop divides by zero at some layer.\<close>

definition UResNet_init :: "nat \<Rightarrow> nat \<Rightarrow> nat \<Rightarrow> bool \<Rightarrow> error + UResNet" where
  "UResNet_init num_classes input_channels inplanes showsizes =
     (let m = UResNet_layers num_classes input_channels inplanes showsizes
      in if list_ex division_raises (UResNet_modules m) then Inl Zero_division
         else Inr (UResNet_initialize m))"

section \<open>Buffers before and after a call\<close>

text \<open>A freshly constructed batch norm has \<open>num_batches_tracked = 0\<close>.\<close>

definition double_conv_buffers_init :: double_conv_buffers where
  "double_conv_buffers_init = (0, 0)"

definition UNet_buffers_init :: UNet_buffers where
  "UNet_buffers_init =
     (double_conv_buffers_init, double_conv_buffers_init, double_conv_buffers_init,
      double_conv_buffers_init, double_conv_buffers_init, double_conv_buffers_init,
      double_conv_buffers_init, double_conv_buffers_init, double_conv_buffers_init)"

definition Bottleneck_buffers_init :: Bottleneck_buffers where
  "Bottleneck_buffers_init = (0, 0, 0)"

definition DoubleResNet_buffers_init :: DoubleResNet_buffers where
  "DoubleResNet_buffers_init = (Bottleneck_buffers_init, Bottleneck_buffers_init)"

definition UResNet_buffers_init :: UResNet_buffers where
  "UResNet_buffers_init =
     (0, 0, 0,
      DoubleResNet_buffers_init, DoubleResNet_buffers_init, DoubleResNet_buffers_init,
      DoubleResNet_buffers_init,
      Bottleneck_buffers_init, Bottleneck_buffers_init, Bottleneck_buffers_init,
      Bottleneck_buffers_init,
      0, 0, 0)"

text \<open>What a successful call does to the buffers: in training mode every batch norm
  has tracked one more batch, in evaluation mode nothing moves.\<close>

definition bump :: "bool \<Rightarrow> bn_buffers \<Rightarrow> bn_buffers" where
  "bump training b = (if training then b + 1 else b)"

definition double_conv_bump :: "bool \<Rightarrow> double_conv_buffers \<Rightarrow> double_conv_buffers" where
  "double_conv_bump t b = (case b of (b1, b4) \<Rightarrow> (bump t b1, bump t b4))"

definition UNet_bump :: "bool \<Rightarrow> UNet_buffers \<Rightarrow> UNet_buffers" where
  "UNet_bump t b = (case b of (b0, d1, d2, d3, d4, u1, u2, u3, u4) \<Rightarrow>
     (double_conv_bump t b0, double_conv_bump t d1, double_conv_bump t d2, double_conv_bump t d3,
      double_conv_bump t d4, double_conv_bump t u1, double_conv_bump t u2, double_conv_bump t u3,
      double_conv_bump t u4))"

definition Bottleneck_bump :: "bool \<Rightarrow> Bottleneck_buffers \<Rightarrow> Bottleneck_buffers" where
  "Bottleneck_bump t b = (case b of (b1, b2, b3) \<Rightarrow> (bump t b1, bump t b2, bump t b3))"

definition DoubleResNet_bump :: "bool \<Rightarrow> DoubleResNet_buffers \<Rightarrow> DoubleResNet_buffers" where
  "DoubleResNet_bump t b = (case b of (r1, r2) \<Rightarrow> (Bottleneck_bump t r1, Bottleneck_bump t r2))"

definition UResNet_bump :: "bool \<Rightarrow> UResNet_buffers \<Rightarrow> UResNet_buffers" where
  "UResNet_bump t b =
     (case b of (s1, s2, s3, e1, e2, e3, e4, d4, d3, d2, d1, s10, s11, s12) \<Rightarrow>
        (bump t s1, bump t s2, bump t s3,
         DoubleResNet_bump t e1, DoubleResNet_bump t e2, DoubleResNet_bump t e3,
         DoubleResNet_bump t e4,
         Bottleneck_bump t d4, Bottleneck_bump t d3, Bottleneck_bump t d2, Bottleneck_bump t d1,
         bump t s10, bump t s11, bump t s12))"

section \<open>The specification's initialisation rule\<close>

text \<open>The rule as the specification words it: a convolution or transposed convolution
  weight is drawn from a zero-mean normal distribution with standard deviation
  \<open>sqrt(2/n)\<close>, \<open>n\<close> the kernel area times the output channels; a batch-norm weight is
  all ones and its bias all zeros.\<close>

fun spec_initialised :: "layer \<Rightarrow> bool" where
  "spec_initialised (Conv2d_layer m) =
     (weight m = Normal_init 0 (sqrt (2 / (real (fst (kernel_size m) * snd (kernel_size m)) * real (out_channels m)))))"
| "spec_initialised (ConvTranspose2d_layer m) =
     (weight m = Normal_init 0 (sqrt (2 / (real (fst (kernel_size m) * snd (kernel_size m)) * real (out_channels m)))))"
| "spec_initialised (BatchNorm2d_layer m) = (bn_weight m = Fill_init 1 \<and> bn_bias m = Fill_init 0)"
| "spec_initialised Other_layer = True"

text \<open>A layer that the constructor of the model has not touched: it holds what the
  framework's constructor of the layer gave it.\<close>

fun framework_initialised :: "layer \<Rightarrow> bool" where
  "framework_initialised (Conv2d_layer m) = (weight m = Reset_parameters)"
| "framework_initialised (ConvTranspose2d_layer m) = (weight m = Reset_parameters)"
| "framework_initialised (BatchNorm2d_layer m) = (bn_weight m = Fill_init 1 \<and> bn_bias m = Fill_init 0)"
| "framework_initialised Other_layer = True"

text \<open>The layers the first half of the rule speaks of.\<close>

fun is_convolution :: "layer \<Rightarrow> bool" where
  "is_convolution (Conv2d_layer m) = True"
| "is_convolution (ConvTranspose2d_layer m) = True"
| "is_convolution (BatchNorm2d_layer m) = False"
| "is_convolution Other_layer = False"

declare double_conv_forward.simps [simp del] UNet_forward.simps [simp del]
  Bottleneck_forward.simps [simp del] DoubleResNet_forward.simps [simp del]
  UResNet_forward.simps [simp del] spec_initialised.simps [simp del]

section \<open>Shapes through the blocks\<close>

text \<open>For every block two facts: the inputs on which the block, as its constructor
  builds it, returns a tensor, with the size of that tensor and the buffers after the
  call (\<open>_ok\<close>); and, from a returned tensor back, what the input must have been
  (\<open>_Inr\<close>).\<close>

lemmas layer_defs = Conv2d_forward_def Conv2d_def BatchNorm2d_forward_def BatchNorm2d_init_def ReLU_forward_def channels_of_def

lemma size_prods_same: "size_prods (n, c, h, w) = size_prods (n, c', h, w)"
  by (simp add: size_prods_def)

lemma double_conv_forward_ok_pair:
  assumes "0 < i" "0 < o'" "0 < h" "0 < w" "training \<longrightarrow> size_prods (n, i, h, w) \<noteq> 1"
  shows "double_conv_forward training (double_conv_init i o') (n, i, h, w) (b1, b4) =
           (Inr (n, o', h, w), (bump training b1, bump training b4))"
  using assms size_prods_same[of n i h w o']
  by (auto simp: double_conv_forward.simps double_conv_init_def layer_defs bump_def)

lemma double_conv_forward_Inr:
  assumes "fst (double_conv_forward training (double_conv_init i o') (n, c, h, w) b) = Inr y"
  shows "c = i \<and> 0 < h \<and> 0 < w \<and> (training \<longrightarrow> size_prods (n, c, h, w) \<noteq> 1) \<and> y = (n, o', h, w)"
  using assms size_prods_same[of n i h w o']
  by (cases b) (auto simp: double_conv_forward.simps double_conv_init_def layer_defs Let_def split: if_splits sum.splits prod.splits)

lemma MaxPool2d_forward_2:
  "MaxPool2d_forward \<lparr>pool_kernel_size = 2\<rparr> (n, c, h, w) =
     (if c = 0 \<or> h = 0 \<or> w = 0 then Inl Empty_input
      else if h < 2 \<or> w < 2 then Inl Output_too_small else Inr (n, c, h div 2, w div 2))"
  by (auto simp: MaxPool2d_forward_def Let_def)

lemma down_forward_ok_pair:
  assumes "0 < i" "0 < o'" "2 \<le> h" "2 \<le> w" "training \<longrightarrow> size_prods (n, i, h div 2, w div 2) \<noteq> 1"
  shows "down_forward training (down_init i o') (n, i, h, w) (b1, b4) =
           (Inr (n, o', h div 2, w div 2), (bump training b1, bump training b4))"
proof -
  have "0 < h div 2" "0 < w div 2" using assms by auto
  then show ?thesis using assms
    by (simp add: down_forward_def down_init_def MaxPool2d_forward_2 double_conv_forward_ok_pair)
qed

lemma down_forward_Inr:
  assumes "fst (down_forward training (down_init i o') (n, c, h, w) b) = Inr y"
  shows "c = i \<and> 2 \<le> h \<and> 2 \<le> w \<and> (training \<longrightarrow> size_prods (n, c, h div 2, w div 2) \<noteq> 1)
         \<and> y = (n, o', h div 2, w div 2)"
  using assms
  by (auto simp: down_forward_def down_init_def MaxPool2d_forward_2 split: if_splits dest!: double_conv_forward_Inr)

lemma up_padded_bilinear:
  assumes "0 < c1" "0 < h1" "0 < w1"
  shows "up_padded (up_init i o' True) (n1, c1, h1, w1) (n2, c2, h2, w2) = Inr (n1, c1, h2, w2)"
  using assms
  by (simp add: up_padded_def up_init_def upsampler_forward_def Upsample_forward_def
      up_pad_amounts_def height_of_def width_of_def F_pad_def Let_def)

lemma up_forward_ok_pair:
  assumes "0 < c1" "0 < o'" "0 < h1" "0 < w1" "0 < h2" "0 < w2" "c2 + c1 = i"
    "training \<longrightarrow> size_prods (n, i, h2, w2) \<noteq> 1"
  shows "up_forward training (up_init i o' True) (n, c1, h1, w1) (n, c2, h2, w2) (b1, b4) =
           (Inr (n, o', h2, w2), (bump training b1, bump training b4))"
  using assms
  by (simp add: up_forward_def up_padded_bilinear torch_cat_def) (simp add: up_init_def double_conv_forward_ok_pair)


lemma double_conv_forward_ok:
  assumes "0 < i" "0 < o'" "0 < h" "0 < w" "training \<longrightarrow> size_prods (n, i, h, w) \<noteq> 1"
  shows "double_conv_forward training (double_conv_init i o') (n, i, h, w) b =
           (Inr (n, o', h, w), double_conv_bump training b)"
  using double_conv_forward_ok_pair[OF assms] by (cases b) (simp add: double_conv_bump_def)

lemma down_forward_ok:
  assumes "0 < i" "0 < o'" "2 \<le> h" "2 \<le> w" "training \<longrightarrow> size_prods (n, i, h div 2, w div 2) \<noteq> 1"
  shows "down_forward training (down_init i o') (n, i, h, w) b =
           (Inr (n, o', h div 2, w div 2), double_conv_bump training b)"
  using down_forward_ok_pair[OF assms] by (cases b) (simp add: double_conv_bump_def)

lemma up_forward_ok:
  assumes "0 < c1" "0 < o'" "0 < h1" "0 < w1" "0 < h2" "0 < w2" "c2 + c1 = i"
    "training \<longrightarrow> size_prods (n, i, h2, w2) \<noteq> 1"
  shows "up_forward training (up_init i o' True) (n, c1, h1, w1) (n, c2, h2, w2) b =
           (Inr (n, o', h2, w2), double_conv_bump training b)"
  using up_forward_ok_pair[OF assms] by (cases b) (simp add: double_conv_bump_def)

lemma UNet_init_sel:
  "inc (UNet_init c k) = inconv_init c 64"
  "down1 (UNet_init c k) = down_init 64 128"
  "down2 (UNet_init c k) = down_init 128 256"
  "down3 (UNet_init c k) = down_init 256 512"
  "down4 (UNet_init c k) = down_init 512 512"
  "up1 (UNet_init c k) = up_init 1024 256 True"
  "up2 (UNet_init c k) = up_init 512 128 True"
  "up3 (UNet_init c k) = up_init 256 64 True"
  "up4 (UNet_init c k) = up_init 128 64 True"
  "outc (UNet_init c k) = outconv_init 64 k"
  by (simp_all add: UNet_init_def)

lemma UNet_forward_ok:
  assumes ck: "0 < c" "0 < k" and h: "16 \<le> h" and w: "16 \<le> w"
    and bn: "training \<longrightarrow> size_prods (n, c, h div 16, w div 16) \<noteq> 1"
  shows "UNet_forward training (UNet_init c k) (n, c, h, w) b = (Inr (n, k, h, w), UNet_bump training b)"
proof -
  obtain b0 d1 d2 d3 d4 u1 u2 u3 u4 where b: "b = (b0, d1, d2, d3, d4, u1, u2, u3, u4)"
    by (cases b) auto
  let ?m = "UNet_init c k"
  define h2 h4 h8 h16 where "h2 = h div 2" and "h4 = h div 4" and "h8 = h div 8" and "h16 = h div 16"
  define w2 w4 w8 w16 where "w2 = w div 2" and "w4 = w div 4" and "w8 = w div 8" and "w16 = w div 16"
  note defs = h2_def h4_def h8_def h16_def w2_def w4_def w8_def w16_def
  have e: "h div 2 = h2" "h2 div 2 = h4" "h4 div 2 = h8" "h8 div 2 = h16"
          "w div 2 = w2" "w2 div 2 = w4" "w4 div 2 = w8" "w8 div 2 = w16"
    by (simp_all add: defs div_mult2_eq[symmetric])
  have gh: "2 \<le> h" "2 \<le> h2" "2 \<le> h4" "2 \<le> h8" "0 < h16"
    using h by (simp_all add: defs)
  have gw: "2 \<le> w" "2 \<le> w2" "2 \<le> w4" "2 \<le> w8" "0 < w16"
    using w by (simp_all add: defs)
  have big: "\<And>a b c. 2 \<le> a \<Longrightarrow> training \<longrightarrow> size_prods (n, c, a, b) \<noteq> 1"
    by (auto simp: size_prods_def)
  have p16: "training \<longrightarrow> size_prods (n, 512, h16, w16) \<noteq> 1"
    using bn size_prods_same[of n c "h div 16" "w div 16" 512] by (simp add: defs)
  have s0: "inconv_forward training (inc ?m) (n, c, h, w) b0 = (Inr (n, 64, h, w), double_conv_bump training b0)"
    using double_conv_forward_ok[of c 64 h w training n b0] ck gh(1) gw(1) big[OF gh(1)]
    by (simp add: UNet_init_sel inconv_forward_def inconv_init_def)
  have s1: "down_forward training (down1 ?m) (n, 64, h, w) d1 = (Inr (n, 128, h2, w2), double_conv_bump training d1)"
    using down_forward_ok[of 64 128 h w training n d1] gh(1) gw(1) big[OF gh(2)]
    by (simp add: UNet_init_sel e)
  have s2: "down_forward training (down2 ?m) (n, 128, h2, w2) d2 = (Inr (n, 256, h4, w4), double_conv_bump training d2)"
    using down_forward_ok[of 128 256 h2 w2 training n d2] gh(2) gw(2) big[OF gh(3)]
    by (simp add: UNet_init_sel e)
  have s3: "down_forward training (down3 ?m) (n, 256, h4, w4) d3 = (Inr (n, 512, h8, w8), double_conv_bump training d3)"
    using down_forward_ok[of 256 512 h4 w4 training n d3] gh(3) gw(3) big[OF gh(4)]
    by (simp add: UNet_init_sel e)
  have s4: "down_forward training (down4 ?m) (n, 512, h8, w8) d4 = (Inr (n, 512, h16, w16), double_conv_bump training d4)"
    using down_forward_ok[of 512 512 h8 w8 training n d4] gh(4) gw(4) p16
    by (simp add: UNet_init_sel e)
  have s5: "up_forward training (up1 ?m) (n, 512, h16, w16) (n, 512, h8, w8) u1 = (Inr (n, 256, h8, w8), double_conv_bump training u1)"
    using up_forward_ok[of 512 256 h16 w16 h8 w8 512 1024 training n u1] gh gw big[OF gh(4)]
    by (simp add: UNet_init_sel)
  have s6: "up_forward training (up2 ?m) (n, 256, h8, w8) (n, 256, h4, w4) u2 = (Inr (n, 128, h4, w4), double_conv_bump training u2)"
    using up_forward_ok[of 256 128 h8 w8 h4 w4 256 512 training n u2] gh gw big[OF gh(3)]
    by (simp add: UNet_init_sel)
  have s7: "up_forward training (up3 ?m) (n, 128, h4, w4) (n, 128, h2, w2) u3 = (Inr (n, 64, h2, w2), double_conv_bump training u3)"
    using up_forward_ok[of 128 64 h4 w4 h2 w2 128 256 training n u3] gh gw big[OF gh(2)]
    by (simp add: UNet_init_sel)
  have s8: "up_forward training (up4 ?m) (n, 64, h2, w2) (n, 64, h, w) u4 = (Inr (n, 64, h, w), double_conv_bump training u4)"
    using up_forward_ok[of 64 64 h2 w2 h w 64 128 training n u4] gh gw big[OF gh(1)]
    by (simp add: UNet_init_sel)
  have s9: "outconv_forward (outc ?m) (n, 64, h, w) = Inr (n, k, h, w)"
    using ck gh(1) gw(1) by (simp add: UNet_init_sel outconv_forward_def outconv_init_def Conv2d_forward_def Conv2d_def)
  show ?thesis
    unfolding b by (simp add: UNet_forward.simps s0 s1 s2 s3 s4 s5 s6 s7 s8 s9 UNet_bump_def)
qed


text \<open>The blocks of UResNet. A strided convolution never turns several values per channel
  into more than it was given, so the batch norms behind it decide.\<close>

lemma size_prods_strided:
  "size_prods (n, c, (h - 1) div s + 1, (w - 1) div s + 1) \<noteq> 1 \<Longrightarrow> size_prods (n, c', h, w) \<noteq> 1"
  by (auto simp: size_prods_def)

lemma broadcast_dim_same: "broadcast_dim a a = Some a"
  by (simp add: broadcast_dim_def)

lemma tensor_add_same: "tensor_add x x = Inr x"
  by (cases x) (simp add: tensor_add_def broadcast_dim_same)

lemma Bottleneck_forward_ok:
  assumes pl: "0 < inplanes" "0 < planes"
    and s: "0 < s" "1 < s \<or> inplanes = planes" and hw: "0 < h" "0 < w"
    and out: "ho = (h - 1) div s + 1" "wo = (w - 1) div s + 1"
    and bn: "training \<longrightarrow> size_prods (n, planes, ho, wo) \<noteq> 1"
  shows "Bottleneck_forward training (Bottleneck_init inplanes planes s) (n, inplanes, h, w) b =
           (Inr (n, planes, ho, wo), Bottleneck_bump training b)"
proof -
  obtain b1 b2 b3 where b: "b = (b1, b2, b3)" by (cases b) auto
  have bn1: "training \<longrightarrow> size_prods (n, planes, h, w) \<noteq> 1"
    using bn size_prods_strided[of n planes h s w planes] unfolding out by blast
  show ?thesis
  proof (cases "1 < s")
    case True
    then show ?thesis
      using pl hw bn bn1 unfolding b out
      by (auto simp: Bottleneck_forward.simps Bottleneck_init_def layer_defs Bottleneck_bump_def
          bump_def tensor_add_same)
  next
    case False
    then have s1: "s = 1" and eq: "inplanes = planes" using s by auto
    show ?thesis
      using pl hw bn bn1 unfolding b s1 eq out
      by (auto simp: Bottleneck_forward.simps Bottleneck_init_def layer_defs Bottleneck_bump_def
          bump_def tensor_add_same)
  qed
qed

lemma Bottleneck_forward_Inr_strided:
  assumes "fst (Bottleneck_forward training (Bottleneck_init inplanes planes 2) (n, c, h, w) b) = Inr y"
  shows "c = inplanes \<and> 0 < h \<and> 0 < w \<and> y = (n, planes, (h - 1) div 2 + 1, (w - 1) div 2 + 1)"
  using assms
  by (cases b) (auto simp: Bottleneck_forward.simps Bottleneck_init_def layer_defs Let_def tensor_add_same
      split: if_splits sum.splits prod.splits)

lemma Bottleneck_forward_Inr_plain:
  assumes "fst (Bottleneck_forward training (Bottleneck_init planes planes 1) (n, c, h, w) b) = Inr y"
  shows "c = planes \<and> 0 < h \<and> 0 < w \<and> y = (n, planes, h, w)"
  using assms
  by (cases b) (auto simp: Bottleneck_forward.simps Bottleneck_init_def layer_defs Let_def tensor_add_same
      split: if_splits sum.splits prod.splits)

lemma ceil_half: "0 < h \<Longrightarrow> (h - 1) div 2 + 1 = (h + 1) div (2::nat)"
  by presburger

lemma DoubleResNet_forward_ok:
  assumes pl: "0 < inplanes" "0 < planes" and hw: "0 < h" "0 < w"
    and out: "hh = (h + 1) div 2" "ww = (w + 1) div 2"
    and bn: "training \<longrightarrow> size_prods (n, planes, hh, ww) \<noteq> 1"
  shows "DoubleResNet_forward training (DoubleResNet_init inplanes planes 2) (n, inplanes, h, w) b =
           (Inr (n, planes, hh, ww), DoubleResNet_bump training b)"
proof -
  obtain r1 r2 where b: "b = (r1, r2)" by (cases b) auto
  have e: "hh = (h - 1) div 2 + 1" "ww = (w - 1) div 2 + 1"
    using hw by (simp_all add: out ceil_half)
  have pos: "0 < hh" "0 < ww" using hw by (simp_all add: out)
  have s1: "Bottleneck_forward training (Bottleneck_init inplanes planes 2) (n, inplanes, h, w) r1 =
              (Inr (n, planes, hh, ww), Bottleneck_bump training r1)"
    by (rule Bottleneck_forward_ok[OF pl _ _ hw e bn]) simp_all
  have s2: "Bottleneck_forward training (Bottleneck_init planes planes 1) (n, planes, hh, ww) r2 =
              (Inr (n, planes, hh, ww), Bottleneck_bump training r2)"
    by (rule Bottleneck_forward_ok[OF pl(2) pl(2) _ _ pos _ _ bn]) (use pos in simp_all)
  show ?thesis unfolding b
    by (simp del: One_nat_def add: DoubleResNet_forward.simps DoubleResNet_init_def s1 s2 DoubleResNet_bump_def)
qed

lemma DoubleResNet_forward_Inr:
  assumes "fst (DoubleResNet_forward training (DoubleResNet_init inplanes planes 2) (n, c, h, w) b) = Inr y"
  shows "c = inplanes \<and> 0 < h \<and> 0 < w \<and> y = (n, planes, (h + 1) div 2, (w + 1) div 2)"
proof -
  obtain r1 r2 where b: "b = (r1, r2)" by (cases b) auto
  obtain q1 t1 where q1: "Bottleneck_forward training (Bottleneck_init inplanes planes 2) (n, c, h, w) r1 = (q1, t1)"
    by (cases "Bottleneck_forward training (Bottleneck_init inplanes planes 2) (n, c, h, w) r1") auto
  from assms obtain x1 where x1: "q1 = Inr x1"
    unfolding b by (cases q1) (auto simp: DoubleResNet_forward.simps DoubleResNet_init_def q1)
  have f1: "c = inplanes \<and> 0 < h \<and> 0 < w \<and> x1 = (n, planes, (h - 1) div 2 + 1, (w - 1) div 2 + 1)"
    using Bottleneck_forward_Inr_strided[of training inplanes planes n c h w r1 x1] q1 x1 by simp
  obtain q2 t2 where q2: "Bottleneck_forward training (Bottleneck_init planes planes 1) x1 r2 = (q2, t2)"
    by (cases "Bottleneck_forward training (Bottleneck_init planes planes 1) x1 r2") auto
  from assms have y: "q2 = Inr y"
    unfolding b
    by (cases q2) (auto simp del: One_nat_def simp: DoubleResNet_forward.simps DoubleResNet_init_def q1 x1 q2)
  have "fst (Bottleneck_forward training (Bottleneck_init planes planes 1)
          (n, planes, (h - 1) div 2 + 1, (w - 1) div 2 + 1) r2) = Inr y"
    using q2 y f1 by (simp del: One_nat_def)
  from Bottleneck_forward_Inr_plain[OF this] have "y = x1" using f1 by simp
  moreover have "(h - 1) div 2 + 1 = (h + 1) div 2" "(w - 1) div 2 + 1 = (w + 1) div 2"
    using f1 by (simp_all only: ceil_half)
  ultimately show ?thesis using f1 by (simp only:)
qed

lemma ConvTransposeLayer_forward_ok:
  assumes pl: "0 < inplanes" "0 < outplanes" and hw: "0 < h" "0 < w"
    and tgt: "2 * h - 1 \<le> oh" "oh \<le> 2 * h" "2 * w - 1 \<le> ow" "ow \<le> 2 * w"
    and bn: "training \<longrightarrow> size_prods (n, inplanes, h, w) \<noteq> 1"
  shows "ConvTransposeLayer_forward training (ConvTransposeLayer_init inplanes outplanes s)
           (n, inplanes, h, w) (on, oc, oh, ow) b =
           (Inr (n, outplanes, oh, ow), Bottleneck_bump training b)"
proof -
  have s1: "Bottleneck_forward training (Bottleneck_init inplanes inplanes 1) (n, inplanes, h, w) b =
              (Inr (n, inplanes, h, w), Bottleneck_bump training b)"
    by (rule Bottleneck_forward_ok[OF pl(1) pl(1) _ _ hw _ _ bn]) (use hw in simp_all)
  have pos: "0 < oh" "0 < ow" using hw tgt by auto
  have s2: "ConvTranspose2d_forward (ConvTranspose2d inplanes outplanes 3 2 1 False) (n, inplanes, h, w)
              (Some (on, oc, oh, ow)) = Inr (n, outplanes, oh, ow)"
    using pl hw tgt pos
    by (auto simp: ConvTranspose2d_forward_def deconv_min_size_def ConvTranspose2d_def Let_def)
  show ?thesis
    by (simp del: One_nat_def add: ConvTransposeLayer_forward_def ConvTransposeLayer_init_def s1 s2)
qed

lemma ConvTranspose2d_forward_target:
  assumes "ConvTranspose2d_forward m x (Some t) = Inr y"
  shows "height_of y = height_of t \<and> width_of y = width_of t"
  using assms
  by (cases x; cases t)
     (auto simp: ConvTranspose2d_forward_def Let_def height_of_def width_of_def split: if_splits)

lemma ConvTransposeLayer_forward_target:
  assumes "fst (ConvTransposeLayer_forward training m x t b) = Inr y"
  shows "height_of y = height_of t \<and> width_of y = width_of t"
  using assms ConvTranspose2d_forward_target[of "deconv m" _ t y]
  by (auto simp: ConvTransposeLayer_forward_def split: sum.splits prod.splits)


lemma UResNet_layers_sel:
  "conv1 (UResNet_layers k c p ss) = Conv2d c p 3 1 1 True"
  "bn1 (UResNet_layers k c p ss) = BatchNorm2d_init p"
  "conv2 (UResNet_layers k c p ss) = Conv2d p p 3 1 1 True"
  "bn2 (UResNet_layers k c p ss) = BatchNorm2d_init p"
  "conv3 (UResNet_layers k c p ss) = Conv2d p p 3 1 1 True"
  "bn3 (UResNet_layers k c p ss) = BatchNorm2d_init p"
  "enc_layer1 (UResNet_layers k c p ss) = DoubleResNet_init (p * 1) (p * 2) 2"
  "enc_layer2 (UResNet_layers k c p ss) = DoubleResNet_init (p * 2) (p * 4) 2"
  "enc_layer3 (UResNet_layers k c p ss) = DoubleResNet_init (p * 4) (p * 8) 2"
  "enc_layer4 (UResNet_layers k c p ss) = DoubleResNet_init (p * 8) (p * 16) 2"
  "dec_layer4 (UResNet_layers k c p ss) = ConvTransposeLayer_init (p * 16) (p * 8) 2"
  "dec_layer3 (UResNet_layers k c p ss) = ConvTransposeLayer_init (p * 8 * 2) (p * 4) 2"
  "dec_layer2 (UResNet_layers k c p ss) = ConvTransposeLayer_init (p * 4 * 2) (p * 2) 2"
  "dec_layer1 (UResNet_layers k c p ss) = ConvTransposeLayer_init (p * 2 * 2) (p * 1) 2"
  "conv10 (UResNet_layers k c p ss) = Conv2d p 16 3 1 1 True"
  "bn10 (UResNet_layers k c p ss) = BatchNorm2d_init 16"
  "conv11 (UResNet_layers k c p ss) = Conv2d 16 (16 * 2) 3 1 1 True"
  "bn11 (UResNet_layers k c p ss) = BatchNorm2d_init (16 * 2)"
  "conv12 (UResNet_layers k c p ss) = Conv2d (16 * 2) 16 3 1 1 True"
  "bn12 (UResNet_layers k c p ss) = BatchNorm2d_init 16"
  "conv13 (UResNet_layers k c p ss) = Conv2d 16 k 1 1 0 True"
  by (simp_all only: UResNet_layers_def UResNet.simps make_encoding_layer_def make_decoding_layer_def)


lemma size_prods_half:
  "size_prods (n, c, (h + 1) div 2, (w + 1) div 2) \<noteq> 1 \<Longrightarrow> size_prods (n, c', h, w) \<noteq> 1"
  by (auto simp: size_prods_def)

lemma Conv2d_forward_3x3:
  "0 < i \<Longrightarrow> 0 < o' \<Longrightarrow> 0 < h \<Longrightarrow> 0 < w \<Longrightarrow> Conv2d_forward (Conv2d i o' 3 1 1 bi) (n, i, h, w) = Inr (n, o', h, w)"
  by (simp add: Conv2d_forward_def Conv2d_def)

lemma Conv2d_forward_1x1:
  "0 < i \<Longrightarrow> 0 < o' \<Longrightarrow> 0 < h \<Longrightarrow> 0 < w \<Longrightarrow> Conv2d_forward (Conv2d i o' 1 1 0 bi) (n, i, h, w) = Inr (n, o', h, w)"
  by (simp add: Conv2d_forward_def Conv2d_def)

lemma BatchNorm2d_forward_ok:
  "training \<longrightarrow> size_prods (n, c, h, w) \<noteq> 1 \<Longrightarrow>
   BatchNorm2d_forward training (BatchNorm2d_init c) (n, c, h, w) t = (Inr (n, c, h, w), bump training t)"
  by (auto simp: BatchNorm2d_forward_def BatchNorm2d_init_def channels_of_def bump_def)

lemma torch_cat_ok: "torch_cat (n, c1, h, w) (n, c2, h, w) = Inr (n, c1 + c2, h, w)"
  by (simp add: torch_cat_def)

lemma UResNet_forward_layers_ok:
  assumes ckp: "0 < c" "0 < k" "0 < p" and hw: "0 < h" "0 < w"
    and sz: "h1 = (h + 1) div 2" "h2 = (h1 + 1) div 2" "h3 = (h2 + 1) div 2" "h4 = (h3 + 1) div 2"
            "w1 = (w + 1) div 2" "w2 = (w1 + 1) div 2" "w3 = (w2 + 1) div 2" "w4 = (w3 + 1) div 2"
    and bn: "training \<longrightarrow> size_prods (n, c, h4, w4) \<noteq> 1"
  shows "UResNet_forward training (UResNet_layers k c p ss) (n, c, h, w) b =
           (Inr (n, k, h, w), UResNet_bump training b)"
proof -
  obtain s1 s2 s3 e1 e2 e3 e4 d4 d3 d2 d1 s10 s11 s12
    where b: "b = (s1, s2, s3, e1, e2, e3, e4, d4, d3, d2, d1, s10, s11, s12)"
    by (cases b) auto
  let ?m = "UResNet_layers k c p ss"
  have pos: "0 < h1" "0 < h2" "0 < h3" "0 < h4" "0 < w1" "0 < w2" "0 < w3" "0 < w4"
    using hw by (simp_all add: sz)
  have p4: "\<And>c'. training \<longrightarrow> size_prods (n, c', h4, w4) \<noteq> 1"
    using bn by (simp add: size_prods_def)
  have p3: "\<And>c'. training \<longrightarrow> size_prods (n, c', h3, w3) \<noteq> 1"
    using p4 size_prods_half[of n _ h3 w3] unfolding sz(4,8) by blast
  have p2: "\<And>c'. training \<longrightarrow> size_prods (n, c', h2, w2) \<noteq> 1"
    using p3 size_prods_half[of n _ h2 w2] unfolding sz(3,7) by blast
  have p1: "\<And>c'. training \<longrightarrow> size_prods (n, c', h1, w1) \<noteq> 1"
    using p2 size_prods_half[of n _ h1 w1] unfolding sz(2,6) by blast
  have p0: "\<And>c'. training \<longrightarrow> size_prods (n, c', h, w) \<noteq> 1"
    using p1 size_prods_half[of n _ h w] unfolding sz(1,5) by blast
  have t3: "2 * h4 - 1 \<le> h3" "h3 \<le> 2 * h4" "2 * w4 - 1 \<le> w3" "w3 \<le> 2 * w4"
    unfolding sz(4,8) by presburger+
  have t2: "2 * h3 - 1 \<le> h2" "h2 \<le> 2 * h3" "2 * w3 - 1 \<le> w2" "w2 \<le> 2 * w3"
    unfolding sz(3,7) by presburger+
  have t1: "2 * h2 - 1 \<le> h1" "h1 \<le> 2 * h2" "2 * w2 - 1 \<le> w1" "w1 \<le> 2 * w2"
    unfolding sz(2,6) by presburger+
  have t0: "2 * h1 - 1 \<le> h" "h \<le> 2 * h1" "2 * w1 - 1 \<le> w" "w \<le> 2 * w1"
    unfolding sz(1,5) by presburger+
  note c3 = Conv2d_forward_3x3[OF _ _ hw] and bnok = BatchNorm2d_forward_ok[OF p0]
  have e1: "DoubleResNet_forward training (DoubleResNet_init p (p * 2) 2) (n, p, h, w) e1 =
              (Inr (n, p * 2, h1, w1), DoubleResNet_bump training e1)"
    by (rule DoubleResNet_forward_ok[OF _ _ hw sz(1,5) p1]) (use ckp in simp_all)
  have e2: "DoubleResNet_forward training (DoubleResNet_init (p * 2) (p * 4) 2) (n, p * 2, h1, w1) e2 =
              (Inr (n, p * 4, h2, w2), DoubleResNet_bump training e2)"
    by (rule DoubleResNet_forward_ok[OF _ _ pos(1,5) sz(2,6) p2]) (use ckp in simp_all)
  have e3: "DoubleResNet_forward training (DoubleResNet_init (p * 4) (p * 8) 2) (n, p * 4, h2, w2) e3 =
              (Inr (n, p * 8, h3, w3), DoubleResNet_bump training e3)"
    by (rule DoubleResNet_forward_ok[OF _ _ pos(2,6) sz(3,7) p3]) (use ckp in simp_all)
  have e4: "DoubleResNet_forward training (DoubleResNet_init (p * 8) (p * 16) 2) (n, p * 8, h3, w3) e4 =
              (Inr (n, p * 16, h4, w4), DoubleResNet_bump training e4)"
    by (rule DoubleResNet_forward_ok[OF _ _ pos(3,7) sz(4,8) p4]) (use ckp in simp_all)
  have d4: "ConvTransposeLayer_forward training (ConvTransposeLayer_init (p * 16) (p * 8) 2)
              (n, p * 16, h4, w4) (n, p * 8, h3, w3) d4 = (Inr (n, p * 8, h3, w3), Bottleneck_bump training d4)"
    by (rule ConvTransposeLayer_forward_ok[OF _ _ pos(4,8) t3 p4]) (use ckp in simp_all)
  have d3: "ConvTransposeLayer_forward training (ConvTransposeLayer_init (16 * p) (p * 4) 2)
              (n, 16 * p, h3, w3) (n, p * 4, h2, w2) d3 = (Inr (n, p * 4, h2, w2), Bottleneck_bump training d3)"
    by (rule ConvTransposeLayer_forward_ok[OF _ _ pos(3,7) t2 p3]) (use ckp in simp_all)
  have d2: "ConvTransposeLayer_forward training (ConvTransposeLayer_init (8 * p) (p * 2) 2)
              (n, 8 * p, h2, w2) (n, p * 2, h1, w1) d2 = (Inr (n, p * 2, h1, w1), Bottleneck_bump training d2)"
    by (rule ConvTransposeLayer_forward_ok[OF _ _ pos(2,6) t1 p2]) (use ckp in simp_all)
  have d1: "ConvTransposeLayer_forward training (ConvTransposeLayer_init (4 * p) p 2)
              (n, 4 * p, h1, w1) (n, p, h, w) d1 = (Inr (n, p, h, w), Bottleneck_bump training d1)"
    by (rule ConvTransposeLayer_forward_ok[OF _ _ pos(1,5) t0 p1]) (use ckp in simp_all)
  show ?thesis
    unfolding b
    by (simp del: One_nat_def add: UResNet_forward.simps UResNet_layers_sel c3 bnok e1 e2 e3 e4 d4 d3 d2 d1 torch_cat_ok
        Conv2d_forward_1x1[OF _ _ hw] ckp Let_def ReLU_forward_def UResNet_bump_def)
qed


text \<open>The initialisation loop changes how the weights are filled and nothing a size
  depends on: a forward call on the initialised model is the call on the layers as
  built.\<close>

lemma initialize_conv_sel:
  "in_channels (initialize_conv m) = in_channels m"
  "out_channels (initialize_conv m) = out_channels m"
  "kernel_size (initialize_conv m) = kernel_size m"
  "stride (initialize_conv m) = stride m"
  "padding (initialize_conv m) = padding m"
  by (simp_all add: initialize_conv_def)

lemma Conv2d_forward_initialize: "Conv2d_forward (initialize_conv m) x = Conv2d_forward m x"
  by (cases x) (simp add: Conv2d_forward_def initialize_conv_def)

lemma deconv_min_size_initialize: "deconv_min_size (initialize_conv m) k sz = deconv_min_size m k sz"
  by (simp add: deconv_min_size_def initialize_conv_sel)

lemma ConvTranspose2d_forward_initialize:
  "ConvTranspose2d_forward (initialize_conv m) x t = ConvTranspose2d_forward m x t"
  by (simp add: ConvTranspose2d_forward_def deconv_min_size_initialize initialize_conv_sel Let_def
      split: prod.splits option.splits)

lemma BatchNorm2d_forward_initialize:
  "BatchNorm2d_forward training (initialize_bn m) x t = BatchNorm2d_forward training m x t"
  by (simp add: BatchNorm2d_forward_def initialize_bn_def)

lemmas forward_initialize = Conv2d_forward_initialize ConvTranspose2d_forward_initialize
  BatchNorm2d_forward_initialize

lemma Bottleneck_forward_initialize:
  "Bottleneck_forward training (Bottleneck_initialize m) x b = Bottleneck_forward training m x b"
  by (cases b; cases "bk_shortcut m")
     (simp_all add: Bottleneck_forward.simps Bottleneck_initialize_def forward_initialize
        cong: sum.case_cong prod.case_cong)

lemma DoubleResNet_forward_initialize:
  "DoubleResNet_forward training (DoubleResNet_initialize m) x b = DoubleResNet_forward training m x b"
  by (cases b)
     (simp add: DoubleResNet_forward.simps DoubleResNet_initialize_def Bottleneck_forward_initialize
        cong: sum.case_cong prod.case_cong)

lemma ConvTransposeLayer_forward_initialize:
  "ConvTransposeLayer_forward training (ConvTransposeLayer_initialize m) x t b =
     ConvTransposeLayer_forward training m x t b"
  by (simp add: ConvTransposeLayer_forward_def ConvTransposeLayer_initialize_def
      Bottleneck_forward_initialize forward_initialize cong: sum.case_cong prod.case_cong)

lemma UResNet_forward_initialize:
  "UResNet_forward training (UResNet_initialize m) x b = UResNet_forward training m x b"
proof -
  obtain s1 s2 s3 e1 e2 e3 e4 d4 d3 d2 d1 s10 s11 s12
    where b: "b = (s1, s2, s3, e1, e2, e3, e4, d4, d3, d2, d1, s10, s11, s12)"
    by (cases b) auto
  show ?thesis
    unfolding b
    by (simp add: UResNet_forward.simps UResNet_initialize_def forward_initialize
        DoubleResNet_forward_initialize ConvTransposeLayer_forward_initialize
        cong: sum.case_cong prod.case_cong)
qed

lemma UResNet_init_ok:
  assumes "0 < k" "0 < p"
  shows "UResNet_init k c p ss = Inr (UResNet_initialize (UResNet_layers k c p ss))"
  using assms
  by (simp add: UResNet_init_def Let_def UResNet_modules_def UResNet_layers_sel
      DoubleResNet_modules_def ConvTransposeLayer_modules_def Bottleneck_modules_def
      DoubleResNet_init_def ConvTransposeLayer_init_def Bottleneck_init_def
      init_n_def Conv2d_def ConvTranspose2d_def)

lemma UResNet_init_Inr:
  assumes "UResNet_init k c p ss = Inr m"
  shows "0 < k \<and> 0 < p \<and> m = UResNet_initialize (UResNet_layers k c p ss)"
  using assms
  by (auto simp add: UResNet_init_def Let_def UResNet_modules_def UResNet_layers_sel
      init_n_def Conv2d_def split: if_splits)


text \<open>A block built or fed without channels returns no tensor: the framework refuses a
  convolution weight without output channels and a tensor without channels.\<close>

lemma zero_channels_refused:
  "fst (double_conv_forward t (double_conv_init 0 64) (1, 0, 16, 16) (b1, b4)) = Inl Zero_channels"
  "fst (double_conv_forward t (double_conv_init 3 0) (1, 3, 16, 16) (b1, b4)) = Inl Zero_channels"
  "outconv_forward (outconv_init 64 0) (1, 64, 16, 16) = Inl Zero_channels"
  "fst (down_forward t (down_init 0 4) (1, 0, 4, 4) (b1, b4)) = Inl Empty_input"
  "fst (up_forward t (up_init 4 4 True) (1, 0, 2, 2) (1, 4, 4, 4) (b1, b4)) = Inl Empty_input"
  "fst (Bottleneck_forward t (Bottleneck_init 4 0 2) (1, 4, 4, 4) (b1, b2, b3)) = Inl Zero_channels"
  "fst (ConvTransposeLayer_forward False (ConvTransposeLayer_init 4 0 2) (1, 4, 2, 3) (1, 4, 3, 5) (b1, b2, b3))
     = Inl Zero_channels"
  by (simp_all add: double_conv_forward.simps double_conv_init_def outconv_forward_def outconv_init_def
      down_forward_def down_init_def MaxPool2d_forward_2 up_forward_def up_padded_def up_init_def
      upsampler_forward_def Upsample_forward_def Bottleneck_forward.simps Bottleneck_init_def
      ConvTransposeLayer_forward_def ConvTransposeLayer_init_def tensor_add_def broadcast_dim_def
      ConvTranspose2d_forward_def ConvTranspose2d_def deconv_min_size_def layer_defs size_prods_def)

lemma UNet_forward_no_input_channels:
  "fst (UNet_forward t (UNet_init 0 2) (1, 0, 16, 16) (b0, d1, d2, d3, d4, u1, u2, u3, u4))
     = Inl Zero_channels"
  by (cases b0)
     (simp add: UNet_forward.simps UNet_init_sel inconv_forward_def inconv_init_def
        double_conv_forward.simps double_conv_init_def layer_defs)

lemma UResNet_forward_no_input_channels:
  "fst (UResNet_forward t (UResNet_layers 2 0 16 False) (1, 0, 16, 16)
          (s1, s2, s3, e1, e2, e3, e4, d4, d3, d2, d1, s10, s11, s12))
     = Inl Zero_channels"
  by (simp add: UResNet_forward.simps UResNet_layers_sel layer_defs)

section \<open>The padding of the UNet decoder\<close>

lemma int_half_floor: "d div 2 = \<lfloor>real_of_int d / 2\<rfloor>"
  using floor_divide_of_int_eq[of d 2, where ?'a = real] by simp

lemma int_half_ceiling: "d - d div 2 = \<lceil>real_of_int d / 2\<rceil>"
proof -
  have "\<lceil>real_of_int d / 2\<rceil> = - (- d div 2)"
    using ceiling_divide_eq_div[of d 2, where ?'a = real] by simp
  also have "\<dots> = d - d div 2" by presburger
  finally show ?thesis by simp
qed

lemma floor_ceiling_half:
  fixes d :: int
  shows "\<lfloor>real_of_int d / 2\<rfloor> + \<lceil>real_of_int d / 2\<rceil> = d"
    and "0 \<le> \<lceil>real_of_int d / 2\<rceil> - \<lfloor>real_of_int d / 2\<rfloor>"
    and "\<lceil>real_of_int d / 2\<rceil> - \<lfloor>real_of_int d / 2\<rfloor> \<le> 1"
    and "odd d \<Longrightarrow> \<lceil>real_of_int d / 2\<rceil> = \<lfloor>real_of_int d / 2\<rfloor> + 1"
  unfolding int_half_floor[symmetric] int_half_ceiling[symmetric] by presburger+

lemma up_pad_amounts_floor_ceiling:
  "up_pad_amounts u x2 =
     (\<lfloor>real_of_int (int (width_of x2) - int (width_of u)) / 2\<rfloor>,
      \<lceil>real_of_int (int (width_of x2) - int (width_of u)) / 2\<rceil>,
      \<lfloor>real_of_int (int (height_of x2) - int (height_of u)) / 2\<rfloor>,
      \<lceil>real_of_int (int (height_of x2) - int (height_of u)) / 2\<rceil>)"
  unfolding up_pad_amounts_def Let_def int_half_floor[symmetric] int_half_ceiling[symmetric] by (rule refl)

lemma F_pad_Inr:
  assumes "F_pad u (pad_left, pad_right, pad_top, pad_bottom) = Inr p"
  shows "batch_of p = batch_of u \<and> channels_of p = channels_of u
         \<and> int (width_of p) = int (width_of u) + pad_left + pad_right
         \<and> int (height_of p) = int (height_of u) + pad_top + pad_bottom"
  using assms
  by (cases u)
     (auto simp: F_pad_def Let_def batch_of_def channels_of_def width_of_def height_of_def
           split: if_splits)

text \<open>
  Claim C7. \<open>up.forward\<close> pads the upsampled tensor \<open>u\<close> and concatenates the padded
  tensor with the skip tensor \<open>x2\<close>. In each dimension the difference between \<open>x2\<close> and
  \<open>u\<close> is split into the floor of its half (left, top) and the ceiling of its half (right,
  bottom), and these are the amounts \<open>F.pad\<close> is called with. The padded tensor has grown
  by the two amounts, which add up to the difference, so it has the height and width of
  \<open>x2\<close>; the two amounts differ by at most one, and for an odd difference the second is
  the first plus one: the padding is asymmetric by exactly one row or column and the
  upsampled tensor stays centred.
\<close>

theorem up_pads_floor_and_ceiling:
  "(let diffX = int (width_of x2) - int (width_of u);
        diffY = int (height_of x2) - int (height_of u);
        pad = (\<lfloor>real_of_int diffX / 2\<rfloor>, \<lceil>real_of_int diffX / 2\<rceil>,
               \<lfloor>real_of_int diffY / 2\<rfloor>, \<lceil>real_of_int diffY / 2\<rceil>)
    in (upsampler_forward (up_up m) x1 = Inr u \<longrightarrow>
          up_padded m x1 x2 = F_pad u pad
          \<and> up_forward training m x1 x2 b =
              (case F_pad u pad of Inl e \<Rightarrow> (Inl e, b) | Inr p \<Rightarrow>
              (case torch_cat x2 p of Inl e \<Rightarrow> (Inl e, b) | Inr x \<Rightarrow>
               double_conv_forward training (up_conv m) x b)))
       \<and> (F_pad u pad = Inr p \<longrightarrow>
            batch_of p = batch_of u \<and> channels_of p = channels_of u
            \<and> int (width_of p) = int (width_of u) + \<lfloor>real_of_int diffX / 2\<rfloor> + \<lceil>real_of_int diffX / 2\<rceil>
            \<and> int (height_of p) = int (height_of u) + \<lfloor>real_of_int diffY / 2\<rfloor> + \<lceil>real_of_int diffY / 2\<rceil>
            \<and> width_of p = width_of x2 \<and> height_of p = height_of x2)
       \<and> up_pad_amounts u x2 = pad
       \<and> \<lfloor>real_of_int diffX / 2\<rfloor> + \<lceil>real_of_int diffX / 2\<rceil> = diffX
       \<and> \<lfloor>real_of_int diffY / 2\<rfloor> + \<lceil>real_of_int diffY / 2\<rceil> = diffY
       \<and> 0 \<le> \<lceil>real_of_int diffX / 2\<rceil> - \<lfloor>real_of_int diffX / 2\<rfloor>
       \<and> \<lceil>real_of_int diffX / 2\<rceil> - \<lfloor>real_of_int diffX / 2\<rfloor> \<le> 1
       \<and> 0 \<le> \<lceil>real_of_int diffY / 2\<rceil> - \<lfloor>real_of_int diffY / 2\<rfloor>
       \<and> \<lceil>real_of_int diffY / 2\<rceil> - \<lfloor>real_of_int diffY / 2\<rfloor> \<le> 1
       \<and> (odd diffX \<longrightarrow> \<lceil>real_of_int diffX / 2\<rceil> = \<lfloor>real_of_int diffX / 2\<rfloor> + 1)
       \<and> (odd diffY \<longrightarrow> \<lceil>real_of_int diffY / 2\<rceil> = \<lfloor>real_of_int diffY / 2\<rfloor> + 1))"
proof -
  define diffX where "diffX = int (width_of x2) - int (width_of u)"
  define diffY where "diffY = int (height_of x2) - int (height_of u)"
  define pad where "pad = (\<lfloor>real_of_int diffX / 2\<rfloor>, \<lceil>real_of_int diffX / 2\<rceil>,
                           \<lfloor>real_of_int diffY / 2\<rfloor>, \<lceil>real_of_int diffY / 2\<rceil>)"
  have amounts: "up_pad_amounts u x2 = pad"
    unfolding pad_def diffX_def diffY_def by (rule up_pad_amounts_floor_ceiling)
  have padded: "up_padded m x1 x2 = F_pad u pad"
    if "upsampler_forward (up_up m) x1 = Inr u"
    using that by (simp add: up_padded_def amounts)
  have forward: "up_forward training m x1 x2 b =
              (case F_pad u pad of Inl e \<Rightarrow> (Inl e, b) | Inr p \<Rightarrow>
              (case torch_cat x2 p of Inl e \<Rightarrow> (Inl e, b) | Inr x \<Rightarrow>
               double_conv_forward training (up_conv m) x b))"
    if "upsampler_forward (up_up m) x1 = Inr u"
    unfolding up_forward_def padded[OF that] by (rule refl)
  have grown: "batch_of p = batch_of u \<and> channels_of p = channels_of u
            \<and> int (width_of p) = int (width_of u) + \<lfloor>real_of_int diffX / 2\<rfloor> + \<lceil>real_of_int diffX / 2\<rceil>
            \<and> int (height_of p) = int (height_of u) + \<lfloor>real_of_int diffY / 2\<rfloor> + \<lceil>real_of_int diffY / 2\<rceil>
            \<and> width_of p = width_of x2 \<and> height_of p = height_of x2"
    if r: "F_pad u pad = Inr p"
  proof -
    note g = F_pad_Inr[OF r[unfolded pad_def]]
    have "int (width_of p) = int (width_of x2)" "int (height_of p) = int (height_of x2)"
      using g floor_ceiling_half(1)[of diffX] floor_ceiling_half(1)[of diffY]
      by (simp_all add: diffX_def diffY_def)
    then show ?thesis using g by simp
  qed
  show ?thesis
    unfolding Let_def diffX_def[symmetric] diffY_def[symmetric] pad_def[symmetric]
    using amounts padded forward grown floor_ceiling_half[of diffX] floor_ceiling_half[of diffY]
    by blast
qed

text \<open>The first decoder stage of UNet on a 1x2 tensor and a 3x5 skip tensor: the
  upsampled tensor is 2x4, both differences are 1, and one row and one column are added
  at the bottom and on the right.\<close>

theorem up_pads_floor_and_ceiling_witness:
  "upsampler_forward (up_up (up_init 1024 256 True)) (1, 512, 1, 2) = Inr (1, 512, 2, 4)
   \<and> odd (int (width_of (1, 512, 3, 5)) - int (width_of (1, 512, 2, 4)))
   \<and> odd (int (height_of (1, 512, 3, 5)) - int (height_of (1, 512, 2, 4)))
   \<and> up_pad_amounts (1, 512, 2, 4) (1, 512, 3, 5) = (0, 1, 0, 1)
   \<and> F_pad (1, 512, 2, 4) (0, 1, 0, 1) = Inr (1, 512, 3, 5)
   \<and> up_padded (up_init 1024 256 True) (1, 512, 1, 2) (1, 512, 3, 5) = Inr (1, 512, 3, 5)
   \<and> width_of (1, 512, 3, 5) = width_of (1, 512, 3, 5)
   \<and> height_of (1, 512, 3, 5) = height_of (1, 512, 3, 5)"
proof -
  have u: "upsampler_forward (up_up (up_init 1024 256 True)) (1, 512, 1, 2) = Inr (1, 512, 2, 4)"
    by (simp add: up_init_def upsampler_forward_def Upsample_forward_def)
  have a: "up_pad_amounts (1, 512, 2, 4) (1, 512, 3, 5) = (0, 1, 0, 1)"
    by (simp add: up_pad_amounts_def width_of_def height_of_def)
  have f: "F_pad (1, 512, 2, 4) (0, 1, 0, 1) = Inr (1, 512, 3, 5)"
    by (simp add: F_pad_def)
  have "up_padded (up_init 1024 256 True) (1, 512, 1, 2) (1, 512, 3, 5) = Inr (1, 512, 3, 5)"
    using up_pads_floor_and_ceiling[of "(1, 512, 3, 5)" "(1, 512, 2, 4)" "up_init 1024 256 True"
      "(1, 512, 1, 2)" True "(0, 0)" "(1, 512, 3, 5)"] u a f
    by (simp add: Let_def)
  then show ?thesis
    using u a f by (simp add: width_of_def height_of_def)
qed


section \<open>Encoder stages\<close>







lemma UResNet_initialize_sel:
  "enc_layer1 (UResNet_initialize m) = DoubleResNet_initialize (enc_layer1 m)"
  "enc_layer2 (UResNet_initialize m) = DoubleResNet_initialize (enc_layer2 m)"
  "enc_layer3 (UResNet_initialize m) = DoubleResNet_initialize (enc_layer3 m)"
  "enc_layer4 (UResNet_initialize m) = DoubleResNet_initialize (enc_layer4 m)"
  "dec_layer4 (UResNet_initialize m) = ConvTransposeLayer_initialize (dec_layer4 m)"
  "dec_layer3 (UResNet_initialize m) = ConvTransposeLayer_initialize (dec_layer3 m)"
  "dec_layer2 (UResNet_initialize m) = ConvTransposeLayer_initialize (dec_layer2 m)"
  "dec_layer1 (UResNet_initialize m) = ConvTransposeLayer_initialize (dec_layer1 m)"
  by (simp_all add: UResNet_initialize_def)

lemma UResNet_init_enc_layers:
  assumes "UResNet_init k c p ss = Inr m"
  shows "DoubleResNet_forward t (enc_layer1 m) x b = DoubleResNet_forward t (DoubleResNet_init p (p * 2) 2) x b"
    and "DoubleResNet_forward t (enc_layer2 m) x b = DoubleResNet_forward t (DoubleResNet_init (p * 2) (p * 4) 2) x b"
    and "DoubleResNet_forward t (enc_layer3 m) x b = DoubleResNet_forward t (DoubleResNet_init (p * 4) (p * 8) 2) x b"
    and "DoubleResNet_forward t (enc_layer4 m) x b = DoubleResNet_forward t (DoubleResNet_init (p * 8) (p * 16) 2) x b"
  using UResNet_init_Inr[OF assms]
  by (simp_all add: UResNet_initialize_sel DoubleResNet_forward_initialize UResNet_layers_sel)

lemma down_doubles:
  assumes "fst (down_forward t (down_init i (2 * i)) x b) = Inr y"
  shows "channels_of y = 2 * channels_of x"
proof -
  obtain n c h w where x: "x = (n, c, h, w)" by (cases x) auto
  from down_forward_Inr[OF assms[unfolded x]] show ?thesis
    by (simp add: x channels_of_def)
qed

lemma enc_doubles:
  assumes "fst (DoubleResNet_forward t (DoubleResNet_init i (2 * i) 2) x b) = Inr y"
  shows "channels_of y = 2 * channels_of x"
proof -
  obtain n c h w where x: "x = (n, c, h, w)" by (cases x) auto
  from DoubleResNet_forward_Inr[OF assms[unfolded x]] show ?thesis
    by (simp add: x channels_of_def)
qed

text \<open>
  Claim C5, as amended. The first three \<open>down\<close> stages of UNet return twice the channels
  they receive (64 to 128, 128 to 256, 256 to 512); \<open>down4\<close> is built as
  \<open>down(512, 512)\<close> and returns the 512 channels it receives. Each of the four encoder
  layers of a constructed UResNet returns twice the channels it receives.
\<close>

theorem encoder_stage_channels:
  "(fst (down_forward t (down1 (UNet_init n_channels n_classes)) x1 b1) = Inr y1 \<longrightarrow>
      channels_of y1 = 2 * channels_of x1)
   \<and> (fst (down_forward t (down2 (UNet_init n_channels n_classes)) x2 b2) = Inr y2 \<longrightarrow>
      channels_of y2 = 2 * channels_of x2)
   \<and> (fst (down_forward t (down3 (UNet_init n_channels n_classes)) x3 b3) = Inr y3 \<longrightarrow>
      channels_of y3 = 2 * channels_of x3)
   \<and> (fst (down_forward t (down4 (UNet_init n_channels n_classes)) x4 b4) = Inr y4 \<longrightarrow>
      channels_of y4 = channels_of x4 \<and> channels_of x4 = 512)
   \<and> (UResNet_init num_classes input_channels inplanes showsizes = Inr m \<longrightarrow>
        (fst (DoubleResNet_forward t (enc_layer1 m) z1 e1) = Inr v1 \<longrightarrow>
           channels_of v1 = 2 * channels_of z1)
      \<and> (fst (DoubleResNet_forward t (enc_layer2 m) z2 e2) = Inr v2 \<longrightarrow>
           channels_of v2 = 2 * channels_of z2)
      \<and> (fst (DoubleResNet_forward t (enc_layer3 m) z3 e3) = Inr v3 \<longrightarrow>
           channels_of v3 = 2 * channels_of z3)
      \<and> (fst (DoubleResNet_forward t (enc_layer4 m) z4 e4) = Inr v4 \<longrightarrow>
           channels_of v4 = 2 * channels_of z4))"
proof -
  have d4: "channels_of y4 = channels_of x4 \<and> channels_of x4 = 512"
    if r: "fst (down_forward t (down_init 512 512) x4 b4) = Inr y4"
  proof -
    obtain n c h w where x: "x4 = (n, c, h, w)" by (cases x4) auto
    from down_forward_Inr[OF r[unfolded x]] show ?thesis by (simp add: x channels_of_def)
  qed
  have u: "(fst (down_forward t (down1 (UNet_init n_channels n_classes)) x1 b1) = Inr y1 \<longrightarrow>
      channels_of y1 = 2 * channels_of x1)
   \<and> (fst (down_forward t (down2 (UNet_init n_channels n_classes)) x2 b2) = Inr y2 \<longrightarrow>
      channels_of y2 = 2 * channels_of x2)
   \<and> (fst (down_forward t (down3 (UNet_init n_channels n_classes)) x3 b3) = Inr y3 \<longrightarrow>
      channels_of y3 = 2 * channels_of x3)
   \<and> (fst (down_forward t (down4 (UNet_init n_channels n_classes)) x4 b4) = Inr y4 \<longrightarrow>
      channels_of y4 = channels_of x4 \<and> channels_of x4 = 512)"
    using down_doubles[of t 64 x1 b1 y1] down_doubles[of t 128 x2 b2 y2]
      down_doubles[of t 256 x3 b3 y3] d4
    by (simp add: UNet_init_sel)
  have r: "(fst (DoubleResNet_forward t (enc_layer1 m) z1 e1) = Inr v1 \<longrightarrow>
           channels_of v1 = 2 * channels_of z1)
      \<and> (fst (DoubleResNet_forward t (enc_layer2 m) z2 e2) = Inr v2 \<longrightarrow>
           channels_of v2 = 2 * channels_of z2)
      \<and> (fst (DoubleResNet_forward t (enc_layer3 m) z3 e3) = Inr v3 \<longrightarrow>
           channels_of v3 = 2 * channels_of z3)
      \<and> (fst (DoubleResNet_forward t (enc_layer4 m) z4 e4) = Inr v4 \<longrightarrow>
           channels_of v4 = 2 * channels_of z4)"
    if i: "UResNet_init num_classes input_channels inplanes showsizes = Inr m"
    using enc_doubles[of t inplanes z1 e1 v1] enc_doubles[of t "inplanes * 2" z2 e2 v2]
      enc_doubles[of t "inplanes * 4" z3 e3 v3] enc_doubles[of t "inplanes * 8" z4 e4 v4]
    by (simp add: UResNet_init_enc_layers[OF i] mult.commute)
  from u r show ?thesis by blast
qed




text \<open>The claim as stated fails at \<open>down4\<close>: 512 channels in, 512 channels out.\<close>

theorem encoder_stage_channels_counterexample:
  "fst (down_forward False (down4 (UNet_init 3 2)) (1, 512, 4, 4) double_conv_buffers_init)
     = Inr (1, 512, 2, 2)
   \<and> channels_of (1, 512, 2, 2) \<noteq> 2 * channels_of (1, 512, 4, 4)"
proof -
  have "down_forward False (down_init 512 512) (1, 512, 4, 4) double_conv_buffers_init
     = (Inr (1, 512, 4 div 2, 4 div 2), double_conv_bump False double_conv_buffers_init)"
    by (rule down_forward_ok) simp_all
  then show ?thesis by (simp add: UNet_init_sel channels_of_def)
qed

theorem encoder_stage_channels_witness:
  "fst (down_forward True (down1 (UNet_init 3 2)) (1, 64, 32, 32) (0, 0)) = Inr (1, 128, 16, 16)
   \<and> fst (down_forward True (down2 (UNet_init 3 2)) (1, 128, 16, 16) (0, 0)) = Inr (1, 256, 8, 8)
   \<and> fst (down_forward True (down3 (UNet_init 3 2)) (1, 256, 8, 8) (0, 0)) = Inr (1, 512, 4, 4)
   \<and> fst (down_forward True (down4 (UNet_init 3 2)) (1, 512, 4, 4) (0, 0)) = Inr (1, 512, 2, 2)
   \<and> UResNet_init 2 1 16 False = Inr (UResNet_initialize (UResNet_layers 2 1 16 False))
   \<and> fst (DoubleResNet_forward True (enc_layer1 (UResNet_initialize (UResNet_layers 2 1 16 False)))
        (1, 16, 32, 32) DoubleResNet_buffers_init) = Inr (1, 32, 16, 16)
   \<and> fst (DoubleResNet_forward True (enc_layer2 (UResNet_initialize (UResNet_layers 2 1 16 False)))
        (1, 32, 16, 16) DoubleResNet_buffers_init) = Inr (1, 64, 8, 8)
   \<and> fst (DoubleResNet_forward True (enc_layer3 (UResNet_initialize (UResNet_layers 2 1 16 False)))
        (1, 64, 8, 8) DoubleResNet_buffers_init) = Inr (1, 128, 4, 4)
   \<and> fst (DoubleResNet_forward True (enc_layer4 (UResNet_initialize (UResNet_layers 2 1 16 False)))
        (1, 128, 4, 4) DoubleResNet_buffers_init) = Inr (1, 256, 2, 2)
   \<and> channels_of (1, 128, 16, 16) = 2 * channels_of (1, 64, 32, 32)
   \<and> channels_of (1, 256, 8, 8) = 2 * channels_of (1, 128, 16, 16)
   \<and> channels_of (1, 512, 4, 4) = 2 * channels_of (1, 256, 8, 8)
   \<and> channels_of (1, 512, 2, 2) = channels_of (1, 512, 4, 4)
   \<and> channels_of (1, 32, 16, 16) = 2 * channels_of (1, 16, 32, 32)
   \<and> channels_of (1, 64, 8, 8) = 2 * channels_of (1, 32, 16, 16)
   \<and> channels_of (1, 128, 4, 4) = 2 * channels_of (1, 64, 8, 8)
   \<and> channels_of (1, 256, 2, 2) = 2 * channels_of (1, 128, 4, 4)"
proof -
  let ?m = "UResNet_initialize (UResNet_layers 2 1 16 False)"
  have i: "UResNet_init 2 1 16 False = Inr ?m"
    by (rule UResNet_init_ok) simp_all
  have d1: "fst (down_forward True (down1 (UNet_init 3 2)) (1, 64, 32, 32) (0, 0)) = Inr (1, 128, 16, 16)"
  proof -
    have "down_forward True (down_init 64 128) (1, 64, 32, 32) (0, 0)
       = (Inr (1, 128, 32 div 2, 32 div 2), double_conv_bump True (0, 0))"
      by (rule down_forward_ok) (simp_all add: size_prods_def)
    then show ?thesis by (simp add: UNet_init_sel)
  qed
  have d2: "fst (down_forward True (down2 (UNet_init 3 2)) (1, 128, 16, 16) (0, 0)) = Inr (1, 256, 8, 8)"
  proof -
    have "down_forward True (down_init 128 256) (1, 128, 16, 16) (0, 0)
       = (Inr (1, 256, 16 div 2, 16 div 2), double_conv_bump True (0, 0))"
      by (rule down_forward_ok) (simp_all add: size_prods_def)
    then show ?thesis by (simp add: UNet_init_sel)
  qed
  have d3: "fst (down_forward True (down3 (UNet_init 3 2)) (1, 256, 8, 8) (0, 0)) = Inr (1, 512, 4, 4)"
  proof -
    have "down_forward True (down_init 256 512) (1, 256, 8, 8) (0, 0)
       = (Inr (1, 512, 8 div 2, 8 div 2), double_conv_bump True (0, 0))"
      by (rule down_forward_ok) (simp_all add: size_prods_def)
    then show ?thesis by (simp add: UNet_init_sel)
  qed
  have d4: "fst (down_forward True (down4 (UNet_init 3 2)) (1, 512, 4, 4) (0, 0)) = Inr (1, 512, 2, 2)"
  proof -
    have "down_forward True (down_init 512 512) (1, 512, 4, 4) (0, 0)
       = (Inr (1, 512, 4 div 2, 4 div 2), double_conv_bump True (0, 0))"
      by (rule down_forward_ok) (simp_all add: size_prods_def)
    then show ?thesis by (simp add: UNet_init_sel)
  qed
  have e1: "fst (DoubleResNet_forward True (enc_layer1 ?m) (1, 16, 32, 32) DoubleResNet_buffers_init)
              = Inr (1, 32, 16, 16)"
  proof -
    have "DoubleResNet_forward True (DoubleResNet_init 16 32 2) (1, 16, 32, 32) DoubleResNet_buffers_init
       = (Inr (1, 32, 16, 16), DoubleResNet_bump True DoubleResNet_buffers_init)"
      by (rule DoubleResNet_forward_ok) (simp_all add: size_prods_def)
    then show ?thesis by (simp only: UResNet_init_enc_layers(1)[OF i]) simp
  qed
  have e2: "fst (DoubleResNet_forward True (enc_layer2 ?m) (1, 32, 16, 16) DoubleResNet_buffers_init)
              = Inr (1, 64, 8, 8)"
  proof -
    have "DoubleResNet_forward True (DoubleResNet_init 32 64 2) (1, 32, 16, 16) DoubleResNet_buffers_init
       = (Inr (1, 64, 8, 8), DoubleResNet_bump True DoubleResNet_buffers_init)"
      by (rule DoubleResNet_forward_ok) (simp_all add: size_prods_def)
    then show ?thesis by (simp only: UResNet_init_enc_layers(2)[OF i]) simp
  qed
  have e3: "fst (DoubleResNet_forward True (enc_layer3 ?m) (1, 64, 8, 8) DoubleResNet_buffers_init)
              = Inr (1, 128, 4, 4)"
  proof -
    have "DoubleResNet_forward True (DoubleResNet_init 64 128 2) (1, 64, 8, 8) DoubleResNet_buffers_init
       = (Inr (1, 128, 4, 4), DoubleResNet_bump True DoubleResNet_buffers_init)"
      by (rule DoubleResNet_forward_ok) (simp_all add: size_prods_def)
    then show ?thesis by (simp only: UResNet_init_enc_layers(3)[OF i]) simp
  qed
  have e4: "fst (DoubleResNet_forward True (enc_layer4 ?m) (1, 128, 4, 4) DoubleResNet_buffers_init)
              = Inr (1, 256, 2, 2)"
  proof -
    have "DoubleResNet_forward True (DoubleResNet_init 128 256 2) (1, 128, 4, 4) DoubleResNet_buffers_init
       = (Inr (1, 256, 2, 2), DoubleResNet_bump True DoubleResNet_buffers_init)"
      by (rule DoubleResNet_forward_ok) (simp_all add: size_prods_def)
    then show ?thesis by (simp only: UResNet_init_enc_layers(4)[OF i]) simp
  qed
  have c: "channels_of (1, 128, 16, 16) = 2 * channels_of (1, 64, 32, 32)"
    "channels_of (1, 256, 8, 8) = 2 * channels_of (1, 128, 16, 16)"
    "channels_of (1, 512, 4, 4) = 2 * channels_of (1, 256, 8, 8)"
    "channels_of (1, 512, 2, 2) = channels_of (1, 512, 4, 4)"
    "channels_of (1, 32, 16, 16) = 2 * channels_of (1, 16, 32, 32)"
    "channels_of (1, 64, 8, 8) = 2 * channels_of (1, 32, 16, 16)"
    "channels_of (1, 128, 4, 4) = 2 * channels_of (1, 64, 8, 8)"
    "channels_of (1, 256, 2, 2) = 2 * channels_of (1, 128, 4, 4)"
    using encoder_stage_channels[of True 3 2 "(1, 64, 32, 32)" "(0, 0)" "(1, 128, 16, 16)"
        "(1, 128, 16, 16)" "(0, 0)" "(1, 256, 8, 8)"
        "(1, 256, 8, 8)" "(0, 0)" "(1, 512, 4, 4)"
        "(1, 512, 4, 4)" "(0, 0)" "(1, 512, 2, 2)"
        2 1 16 False ?m
        "(1, 16, 32, 32)" DoubleResNet_buffers_init "(1, 32, 16, 16)"
        "(1, 32, 16, 16)" DoubleResNet_buffers_init "(1, 64, 8, 8)"
        "(1, 64, 8, 8)" DoubleResNet_buffers_init "(1, 128, 4, 4)"
        "(1, 128, 4, 4)" DoubleResNet_buffers_init "(1, 256, 2, 2)"]
      i d1 d2 d3 d4 e1 e2 e3 e4
    by blast+
  show ?thesis
    using i d1 d2 d3 d4 e1 e2 e3 e4 c by blast
qed


section \<open>Decoder stages\<close>

lemma up_padded_target:
  assumes "up_padded m x1 x2 = Inr y"
  shows "height_of y = height_of x2 \<and> width_of y = width_of x2"
proof -
  obtain u where u: "upsampler_forward (up_up m) x1 = Inr u" and p: "F_pad u (up_pad_amounts u x2) = Inr y"
    using assms by (auto simp: up_padded_def split: sum.splits)
  obtain n c h w where uu: "u = (n, c, h, w)" by (cases u) auto
  obtain n2 c2 h2 w2 where x2: "x2 = (n2, c2, h2, w2)" by (cases x2) auto
  have "int h + (int h2 - int h) div 2 + (int h2 - int h - (int h2 - int h) div 2) = int h2"
       "int w + (int w2 - int w) div 2 + (int w2 - int w - (int w2 - int w) div 2) = int w2"
    by simp_all
  then show ?thesis
    using p unfolding uu x2
    by (auto simp: F_pad_def up_pad_amounts_def height_of_def width_of_def Let_def split: if_splits)
qed

lemma up_forward_target:
  assumes "fst (up_forward training (up_init in_ch out_ch bilinear) x1 x2 b) = Inr y"
  shows "height_of y = height_of x2 \<and> width_of y = width_of x2"
proof -
  let ?m = "up_init in_ch out_ch bilinear"
  obtain p where p: "up_padded ?m x1 x2 = Inr p"
    using assms by (cases "up_padded ?m x1 x2") (auto simp: up_forward_def)
  obtain q where q: "torch_cat x2 p = Inr q"
    using assms p by (cases "torch_cat x2 p") (auto simp: up_forward_def)
  have r: "fst (double_conv_forward training (double_conv_init in_ch out_ch) q b) = Inr y"
    using assms p q by (simp add: up_forward_def up_init_def)
  obtain n c h w where qq: "q = (n, c, h, w)" by (cases q) auto
  from double_conv_forward_Inr[OF r[unfolded qq]] have y: "y = (n, out_ch, h, w)" by simp
  have "height_of q = height_of x2 \<and> width_of q = width_of x2"
    using q by (cases x2; cases p) (auto simp: torch_cat_def height_of_def width_of_def split: if_splits)
  then show ?thesis by (simp add: y qq height_of_def width_of_def)
qed

lemma ceil_half_reaches:
  "0 < (oh::nat) \<Longrightarrow> 2 * ((oh + 1) div 2) - 1 \<le> oh \<and> oh \<le> 2 * ((oh + 1) div 2)"
  by presburger

text \<open>The two \<open>forward\<close> methods, read back from a returned tensor: the tensors every
  stage received and returned, with the decoder stages called on the encoder tensors as
  the source writes them.\<close>

lemma up_forward_Inr:
  assumes "up_forward training (up_init in_ch out_ch bilinear) x1 x2 b = (Inr y, b')"
  shows "fst (up_forward training (up_init in_ch out_ch bilinear) x1 x2 b) = Inr y
         \<and> (\<exists>p q. up_padded (up_init in_ch out_ch bilinear) x1 x2 = Inr p \<and> torch_cat x2 p = Inr q
                \<and> height_of p = height_of x2 \<and> width_of p = width_of x2)
         \<and> height_of y = height_of x2 \<and> width_of y = width_of x2"
proof -
  let ?m = "up_init in_ch out_ch bilinear"
  have r: "fst (up_forward training ?m x1 x2 b) = Inr y" using assms by simp
  obtain p where p: "up_padded ?m x1 x2 = Inr p"
    using r by (cases "up_padded ?m x1 x2") (auto simp: up_forward_def)
  obtain q where q: "torch_cat x2 p = Inr q"
    using r p by (cases "torch_cat x2 p") (auto simp: up_forward_def)
  show ?thesis
    using r p q up_padded_target[OF p] up_forward_target[OF r] by blast
qed

lemma BatchNorm2d_forward_Inr:
  "BatchNorm2d_forward training m x t = (Inr y, t') \<Longrightarrow>
     y = x \<and> fst (BatchNorm2d_forward training m x t) = Inr x"
  by (auto simp: BatchNorm2d_forward_def Let_def split: if_splits)

lemma ConvTransposeLayer_forward_Inr:
  "ConvTransposeLayer_forward training m x t b = (Inr y, b') \<Longrightarrow>
     fst (ConvTransposeLayer_forward training m x t b) = Inr y
     \<and> height_of y = height_of t \<and> width_of y = width_of t"
  using ConvTransposeLayer_forward_target[of training m x t b y] by simp

lemma UNet_forward_trace:
  assumes "fst (UNet_forward training (UNet_init c k) x (b0, bd1, bd2, bd3, bd4, bu1, bu2, bu3, bu4))
             = Inr y"
  shows "\<exists>t1 t2 t3 t4 t5 p1 p2 p3 p4 r1 r2 r3 r4.
       fst (inconv_forward training (inc (UNet_init c k)) x b0) = Inr t1
     \<and> fst (down_forward training (down1 (UNet_init c k)) t1 bd1) = Inr t2
     \<and> fst (down_forward training (down2 (UNet_init c k)) t2 bd2) = Inr t3
     \<and> fst (down_forward training (down3 (UNet_init c k)) t3 bd3) = Inr t4
     \<and> fst (down_forward training (down4 (UNet_init c k)) t4 bd4) = Inr t5
     \<and> up_padded (up1 (UNet_init c k)) t5 t4 = Inr p1
     \<and> fst (up_forward training (up1 (UNet_init c k)) t5 t4 bu1) = Inr r1
     \<and> up_padded (up2 (UNet_init c k)) r1 t3 = Inr p2
     \<and> fst (up_forward training (up2 (UNet_init c k)) r1 t3 bu2) = Inr r2
     \<and> up_padded (up3 (UNet_init c k)) r2 t2 = Inr p3
     \<and> fst (up_forward training (up3 (UNet_init c k)) r2 t2 bu3) = Inr r3
     \<and> up_padded (up4 (UNet_init c k)) r3 t1 = Inr p4
     \<and> fst (up_forward training (up4 (UNet_init c k)) r3 t1 bu4) = Inr r4
     \<and> height_of p1 = height_of t4 \<and> width_of p1 = width_of t4
     \<and> height_of p2 = height_of t3 \<and> width_of p2 = width_of t3
     \<and> height_of p3 = height_of t2 \<and> width_of p3 = width_of t2
     \<and> height_of p4 = height_of t1 \<and> width_of p4 = width_of t1
     \<and> height_of r1 = height_of t4 \<and> width_of r1 = width_of t4
     \<and> height_of r2 = height_of t3 \<and> width_of r2 = width_of t3
     \<and> height_of r3 = height_of t2 \<and> width_of r3 = width_of t2
     \<and> height_of r4 = height_of t1 \<and> width_of r4 = width_of t1"
  using assms
  by (auto simp: UNet_forward.simps UNet_init_sel split: sum.splits prod.splits
        dest!: up_forward_Inr)

lemma UResNet_forward_trace:
  assumes "fst (UResNet_forward training m x (s1, s2, s3, e1, e2, e3, e4, g4, g3, g2, g1, s10, s11, s12))
             = Inr y"
  shows "\<exists>a1 a2 a3 t0 t1 t2 t3 t4 r4 r3 r2 r1 q4 q3 q2.
       Conv2d_forward (conv1 m) x = Inr a1
     \<and> fst (BatchNorm2d_forward training (bn1 m) a1 s1) = Inr a1
     \<and> Conv2d_forward (conv2 m) (ReLU_forward a1) = Inr a2
     \<and> fst (BatchNorm2d_forward training (bn2 m) a2 s2) = Inr a2
     \<and> Conv2d_forward (conv3 m) (ReLU_forward a2) = Inr a3
     \<and> fst (BatchNorm2d_forward training (bn3 m) a3 s3) = Inr a3
     \<and> t0 = ReLU_forward a3
     \<and> fst (DoubleResNet_forward training (enc_layer1 m) t0 e1) = Inr t1
     \<and> fst (DoubleResNet_forward training (enc_layer2 m) t1 e2) = Inr t2
     \<and> fst (DoubleResNet_forward training (enc_layer3 m) t2 e3) = Inr t3
     \<and> fst (DoubleResNet_forward training (enc_layer4 m) t3 e4) = Inr t4
     \<and> fst (ConvTransposeLayer_forward training (dec_layer4 m) t4 t3 g4) = Inr r4
     \<and> torch_cat r4 t3 = Inr q4
     \<and> fst (ConvTransposeLayer_forward training (dec_layer3 m) q4 t2 g3) = Inr r3
     \<and> torch_cat r3 t2 = Inr q3
     \<and> fst (ConvTransposeLayer_forward training (dec_layer2 m) q3 t1 g2) = Inr r2
     \<and> torch_cat r2 t1 = Inr q2
     \<and> fst (ConvTransposeLayer_forward training (dec_layer1 m) q2 t0 g1) = Inr r1
     \<and> height_of r4 = height_of t3 \<and> width_of r4 = width_of t3
     \<and> height_of r3 = height_of t2 \<and> width_of r3 = width_of t2
     \<and> height_of r2 = height_of t1 \<and> width_of r2 = width_of t1
     \<and> height_of r1 = height_of t0 \<and> width_of r1 = width_of t0"
  using assms
  by (auto simp: UResNet_forward.simps Let_def split: sum.splits prod.splits
        dest!: BatchNorm2d_forward_Inr ConvTransposeLayer_forward_Inr)

text \<open>Both networks in training mode on odd sizes.\<close>

lemma UNet_forward_odd_example:
  "UNet_forward True (UNet_init 3 5) (1, 3, 37, 53) UNet_buffers_init
     = (Inr (1, 5, 37, 53), UNet_bump True UNet_buffers_init)"
  by (rule UNet_forward_ok) (simp_all add: size_prods_def)

lemma UResNet_forward_odd_example:
  "UResNet_forward True (UResNet_initialize (UResNet_layers 2 1 16 False)) (2, 1, 13, 17)
       UResNet_buffers_init
     = (Inr (2, 2, 13, 17), UResNet_bump True UResNet_buffers_init)"
  unfolding UResNet_forward_initialize
  by (rule UResNet_forward_layers_ok[where ?h1.0 = 7 and ?h2.0 = 4 and ?h3.0 = 2 and ?h4.0 = 1
        and ?w1.0 = 9 and ?w2.0 = 5 and ?w3.0 = 3 and ?w4.0 = 2])
     (simp_all add: size_prods_def)

text \<open>
  Claim C2. In every decoder stage the tensor that meets the skip tensor has the skip
  tensor's height and width, whatever the parity of the sizes. In \<open>up.forward\<close> the
  upsampled and padded \<open>x1\<close>, which is the tensor concatenated with \<open>x2\<close>, has the size
  of \<open>x2\<close>, and so has the tensor the stage returns. In UResNet the tensor a
  \<open>ConvTransposeLayer\<close> returns has the size passed as \<open>output_size\<close>. Whenever
  \<open>UNet.forward\<close> or \<open>UResNet.forward\<close> returns, each of its decoder stages was called
  on the tensor of the matching encoder stage, and what it padded, returned and
  concatenated had that tensor's height and width.
  Both stages do return on the sizes the encoders produce, even or odd, for a batch of
  at least one and positive channel counts: \<open>up\<close> on the floor half of the skip tensor's
  size, the \<open>ConvTransposeLayer\<close> on the ceiling half of the size it is to reach.
\<close>

theorem decoder_stage_matches_skip:
  "(up_padded m x1 x2 = Inr p \<longrightarrow> height_of p = height_of x2 \<and> width_of p = width_of x2)
   \<and> (fst (up_forward training (up_init in_ch out_ch bilinear) x1' x2' b) = Inr y \<longrightarrow>
        (\<exists>p' q'. up_padded (up_init in_ch out_ch bilinear) x1' x2' = Inr p' \<and> torch_cat x2' p' = Inr q'
                \<and> height_of p' = height_of x2' \<and> width_of p' = width_of x2')
        \<and> height_of y = height_of x2' \<and> width_of y = width_of x2')
   \<and> (fst (ConvTransposeLayer_forward training d x output_size b') = Inr z \<longrightarrow>
        height_of z = height_of output_size \<and> width_of z = width_of output_size)
   \<and> (fst (UNet_forward training (UNet_init n_channels n_classes) xu
              (b0, bd1, bd2, bd3, bd4, bu1, bu2, bu3, bu4)) = Inr yu \<longrightarrow>
        (\<exists>t1 t2 t3 t4 t5 p1 p2 p3 p4 r1 r2 r3 r4.
            fst (inconv_forward training (inc (UNet_init n_channels n_classes)) xu b0) = Inr t1
          \<and> fst (down_forward training (down1 (UNet_init n_channels n_classes)) t1 bd1) = Inr t2
          \<and> fst (down_forward training (down2 (UNet_init n_channels n_classes)) t2 bd2) = Inr t3
          \<and> fst (down_forward training (down3 (UNet_init n_channels n_classes)) t3 bd3) = Inr t4
          \<and> fst (down_forward training (down4 (UNet_init n_channels n_classes)) t4 bd4) = Inr t5
          \<and> up_padded (up1 (UNet_init n_channels n_classes)) t5 t4 = Inr p1
          \<and> fst (up_forward training (up1 (UNet_init n_channels n_classes)) t5 t4 bu1) = Inr r1
          \<and> up_padded (up2 (UNet_init n_channels n_classes)) r1 t3 = Inr p2
          \<and> fst (up_forward training (up2 (UNet_init n_channels n_classes)) r1 t3 bu2) = Inr r2
          \<and> up_padded (up3 (UNet_init n_channels n_classes)) r2 t2 = Inr p3
          \<and> fst (up_forward training (up3 (UNet_init n_channels n_classes)) r2 t2 bu3) = Inr r3
          \<and> up_padded (up4 (UNet_init n_channels n_classes)) r3 t1 = Inr p4
          \<and> fst (up_forward training (up4 (UNet_init n_channels n_classes)) r3 t1 bu4) = Inr r4
          \<and> height_of p1 = height_of t4 \<and> width_of p1 = width_of t4
          \<and> height_of p2 = height_of t3 \<and> width_of p2 = width_of t3
          \<and> height_of p3 = height_of t2 \<and> width_of p3 = width_of t2
          \<and> height_of p4 = height_of t1 \<and> width_of p4 = width_of t1
          \<and> height_of r1 = height_of t4 \<and> width_of r1 = width_of t4
          \<and> height_of r2 = height_of t3 \<and> width_of r2 = width_of t3
          \<and> height_of r3 = height_of t2 \<and> width_of r3 = width_of t2
          \<and> height_of r4 = height_of t1 \<and> width_of r4 = width_of t1))
   \<and> (fst (UResNet_forward training net xr
              (s1, s2, s3, e1, e2, e3, e4, g4, g3, g2, g1, s10, s11, s12)) = Inr yr \<longrightarrow>
        (\<exists>a1 a2 a3 t0 t1 t2 t3 t4 r4 r3 r2 r1 q4 q3 q2.
            Conv2d_forward (conv1 net) xr = Inr a1
          \<and> fst (BatchNorm2d_forward training (bn1 net) a1 s1) = Inr a1
          \<and> Conv2d_forward (conv2 net) (ReLU_forward a1) = Inr a2
          \<and> fst (BatchNorm2d_forward training (bn2 net) a2 s2) = Inr a2
          \<and> Conv2d_forward (conv3 net) (ReLU_forward a2) = Inr a3
          \<and> fst (BatchNorm2d_forward training (bn3 net) a3 s3) = Inr a3
          \<and> t0 = ReLU_forward a3
          \<and> fst (DoubleResNet_forward training (enc_layer1 net) t0 e1) = Inr t1
          \<and> fst (DoubleResNet_forward training (enc_layer2 net) t1 e2) = Inr t2
          \<and> fst (DoubleResNet_forward training (enc_layer3 net) t2 e3) = Inr t3
          \<and> fst (DoubleResNet_forward training (enc_layer4 net) t3 e4) = Inr t4
          \<and> fst (ConvTransposeLayer_forward training (dec_layer4 net) t4 t3 g4) = Inr r4
          \<and> torch_cat r4 t3 = Inr q4
          \<and> fst (ConvTransposeLayer_forward training (dec_layer3 net) q4 t2 g3) = Inr r3
          \<and> torch_cat r3 t2 = Inr q3
          \<and> fst (ConvTransposeLayer_forward training (dec_layer2 net) q3 t1 g2) = Inr r2
          \<and> torch_cat r2 t1 = Inr q2
          \<and> fst (ConvTransposeLayer_forward training (dec_layer1 net) q2 t0 g1) = Inr r1
          \<and> height_of r4 = height_of t3 \<and> width_of r4 = width_of t3
          \<and> height_of r3 = height_of t2 \<and> width_of r3 = width_of t2
          \<and> height_of r2 = height_of t1 \<and> width_of r2 = width_of t1
          \<and> height_of r1 = height_of t0 \<and> width_of r1 = width_of t0))
   \<and> (1 \<le> n \<and> 0 < c1 \<and> 0 < c2 \<and> 0 < out_ch \<and> 2 \<le> h \<and> 2 \<le> w \<and> c2 + c1 = in_ch \<longrightarrow>
        fst (up_forward training (up_init in_ch out_ch True) (n, c1, h div 2, w div 2) (n, c2, h, w) b)
          = Inr (n, out_ch, h, w))
   \<and> (1 \<le> n' \<and> 0 < inplanes \<and> 0 < planes \<and> 1 \<le> h' \<and> 1 \<le> w'
        \<and> (training \<longrightarrow> 1 < n' * ((h' + 1) div 2) * ((w' + 1) div 2)) \<longrightarrow>
        fst (ConvTransposeLayer_forward training (make_decoding_layer inplanes planes strd)
               (n', inplanes, (h' + 1) div 2, (w' + 1) div 2) (n', oc, h', w') b')
          = Inr (n', planes, h', w'))"
proof -
  have u: "fst (up_forward training (up_init in_ch out_ch True) (n, c1, h div 2, w div 2) (n, c2, h, w) b)
          = Inr (n, out_ch, h, w)"
    if c: "1 \<le> n \<and> 0 < c1 \<and> 0 < c2 \<and> 0 < out_ch \<and> 2 \<le> h \<and> 2 \<le> w \<and> c2 + c1 = in_ch"
  proof -
    have bn: "training \<longrightarrow> size_prods (n, in_ch, h, w) \<noteq> 1"
      using c by (auto simp: size_prods_def)
    have "up_forward training (up_init in_ch out_ch True) (n, c1, h div 2, w div 2) (n, c2, h, w) b
            = (Inr (n, out_ch, h, w), double_conv_bump training b)"
      by (rule up_forward_ok[OF _ _ _ _ _ _ _ bn]) (use c in simp_all)
    then show ?thesis by simp
  qed
  have t: "fst (ConvTransposeLayer_forward training (make_decoding_layer inplanes planes strd)
               (n', inplanes, (h' + 1) div 2, (w' + 1) div 2) (n', oc, h', w') b')
          = Inr (n', planes, h', w')"
    if c: "1 \<le> n' \<and> 0 < inplanes \<and> 0 < planes \<and> 1 \<le> h' \<and> 1 \<le> w'
        \<and> (training \<longrightarrow> 1 < n' * ((h' + 1) div 2) * ((w' + 1) div 2))"
  proof -
    define hh ww where "hh = (h' + 1) div 2" and "ww = (w' + 1) div 2"
    have pl: "0 < inplanes" "0 < planes" using c by simp_all
    have pos: "0 < hh" "0 < ww" using c by (simp_all add: hh_def ww_def)
    have tgt: "2 * hh - 1 \<le> h'" "h' \<le> 2 * hh" "2 * ww - 1 \<le> w'" "w' \<le> 2 * ww"
      using c ceil_half_reaches[of h'] ceil_half_reaches[of w'] by (simp_all add: hh_def ww_def)
    have bn: "training \<longrightarrow> size_prods (n', inplanes, hh, ww) \<noteq> 1"
      using c by (auto simp: size_prods_def hh_def ww_def)
    have "ConvTransposeLayer_forward training (ConvTransposeLayer_init inplanes planes strd)
            (n', inplanes, hh, ww) (n', oc, h', w') b'
            = (Inr (n', planes, h', w'), Bottleneck_bump training b')"
      by (rule ConvTransposeLayer_forward_ok[OF pl pos tgt bn])
    then show ?thesis by (simp add: make_decoding_layer_def hh_def ww_def)
  qed
  have f: "(\<exists>p' q'. up_padded (up_init in_ch out_ch bilinear) x1' x2' = Inr p' \<and> torch_cat x2' p' = Inr q'
                \<and> height_of p' = height_of x2' \<and> width_of p' = width_of x2')
        \<and> height_of y = height_of x2' \<and> width_of y = width_of x2'"
    if r: "fst (up_forward training (up_init in_ch out_ch bilinear) x1' x2' b) = Inr y"
  proof -
    have "up_forward training (up_init in_ch out_ch bilinear) x1' x2' b
            = (Inr y, snd (up_forward training (up_init in_ch out_ch bilinear) x1' x2' b))"
      using r by (simp add: prod_eq_iff)
    from up_forward_Inr[OF this] show ?thesis by blast
  qed
  show ?thesis
    apply (intro conjI impI)
    subgoal using up_padded_target[of m x1 x2 p] by blast
    subgoal using up_padded_target[of m x1 x2 p] by blast
    subgoal using f by blast
    subgoal using f by blast
    subgoal using f by blast
    subgoal using ConvTransposeLayer_forward_target[of training d x output_size b' z] by blast
    subgoal using ConvTransposeLayer_forward_target[of training d x output_size b' z] by blast
    subgoal by (rule UNet_forward_trace)
    subgoal by (rule UResNet_forward_trace)
    subgoal using u by blast
    subgoal using t by blast
    done
qed

text \<open>Odd sizes everywhere: the first decoder stage of UNet and a decoder layer of UResNet
  reaching a 3x5 skip tensor, a UNet on a 37x53 image and a UResNet on a batch of two
  13x17 images, all in training mode.\<close>

theorem decoder_stage_matches_skip_witness:
  "up_padded (up_init 1024 256 True) (1, 512, 1, 2) (1, 512, 3, 5) = Inr (1, 512, 3, 5)
   \<and> fst (up_forward True (up_init 1024 256 True) (1, 512, 1, 2) (1, 512, 3, 5) (0, 0))
       = Inr (1, 256, 3, 5)
   \<and> fst (ConvTransposeLayer_forward True (make_decoding_layer 256 128 2) (1, 256, 2, 3)
            (1, 128, 3, 5) (0, 0, 0)) = Inr (1, 128, 3, 5)
   \<and> fst (UNet_forward True (UNet_init 3 5) (1, 3, 37, 53)
            ((0, 0), (0, 0), (0, 0), (0, 0), (0, 0), (0, 0), (0, 0), (0, 0), (0, 0)))
       = Inr (1, 5, 37, 53)
   \<and> fst (UResNet_forward True (UResNet_initialize (UResNet_layers 2 1 16 False)) (2, 1, 13, 17)
            (0, 0, 0, ((0, 0, 0), (0, 0, 0)), ((0, 0, 0), (0, 0, 0)), ((0, 0, 0), (0, 0, 0)),
             ((0, 0, 0), (0, 0, 0)), (0, 0, 0), (0, 0, 0), (0, 0, 0), (0, 0, 0), 0, 0, 0))
       = Inr (2, 2, 13, 17)
   \<and> (1::nat) \<le> 1 \<and> (0::nat) < 512 \<and> (0::nat) < 256 \<and> (2::nat) \<le> 3 \<and> (2::nat) \<le> 5
   \<and> (512::nat) + 512 = 1024
   \<and> (0::nat) < 128 \<and> (1::nat) \<le> 3 \<and> (1::nat) \<le> 5
   \<and> (1::nat) < 1 * ((3 + 1) div 2) * ((5 + 1) div 2)
   \<and> height_of (1, 512, 3, 5) = height_of (1, 512, 3, 5)
   \<and> width_of (1, 512, 3, 5) = width_of (1, 512, 3, 5)
   \<and> height_of (1, 256, 3, 5) = height_of (1, 512, 3, 5)
   \<and> width_of (1, 256, 3, 5) = width_of (1, 512, 3, 5)
   \<and> height_of (1, 128, 3, 5) = height_of (1, 128, 3, 5)
   \<and> width_of (1, 128, 3, 5) = width_of (1, 128, 3, 5)"
proof -
  note t = decoder_stage_matches_skip[of "up_init 1024 256 True" "(1, 512, 1, 2)" "(1, 512, 3, 5)"
        "(1, 512, 3, 5)" True 1024 256 True "(1, 512, 1, 2)" "(1, 512, 3, 5)" "(0, 0)" "(1, 256, 3, 5)"
        "make_decoding_layer 256 128 2" "(1, 256, 2, 3)" "(1, 128, 3, 5)" "(0, 0, 0)"
        "(1, 128, 3, 5)"
        3 5 "(1, 3, 37, 53)" "(0, 0)" "(0, 0)" "(0, 0)" "(0, 0)" "(0, 0)" "(0, 0)" "(0, 0)" "(0, 0)"
        "(0, 0)" "(1, 5, 37, 53)"
        "UResNet_initialize (UResNet_layers 2 1 16 False)" "(2, 1, 13, 17)" 0 0 0
        "((0, 0, 0), (0, 0, 0))" "((0, 0, 0), (0, 0, 0))" "((0, 0, 0), (0, 0, 0))"
        "((0, 0, 0), (0, 0, 0))" "(0, 0, 0)" "(0, 0, 0)" "(0, 0, 0)" "(0, 0, 0)" 0 0 0
        "(2, 2, 13, 17)"
        1 512 512 3 5 1 256 128 3 5 2 128]
  have a: "up_padded (up_init 1024 256 True) (1, 512, 1, 2) (1, 512, 3, 5) = Inr (1, 512, 3, 5)"
    by (rule up_padded_bilinear) simp_all
  have b: "fst (up_forward True (up_init 1024 256 True) (1, 512, 1, 2) (1, 512, 3, 5) (0, 0))
       = Inr (1, 256, 3, 5)"
    using t by simp
  have c: "fst (ConvTransposeLayer_forward True (make_decoding_layer 256 128 2) (1, 256, 2, 3)
            (1, 128, 3, 5) (0, 0, 0)) = Inr (1, 128, 3, 5)"
    using t by simp
  have d: "fst (UNet_forward True (UNet_init 3 5) (1, 3, 37, 53)
            ((0, 0), (0, 0), (0, 0), (0, 0), (0, 0), (0, 0), (0, 0), (0, 0), (0, 0)))
       = Inr (1, 5, 37, 53)"
    using UNet_forward_odd_example
    by (simp add: UNet_buffers_init_def double_conv_buffers_init_def)
  have e: "fst (UResNet_forward True (UResNet_initialize (UResNet_layers 2 1 16 False)) (2, 1, 13, 17)
            (0, 0, 0, ((0, 0, 0), (0, 0, 0)), ((0, 0, 0), (0, 0, 0)), ((0, 0, 0), (0, 0, 0)),
             ((0, 0, 0), (0, 0, 0)), (0, 0, 0), (0, 0, 0), (0, 0, 0), (0, 0, 0), 0, 0, 0))
       = Inr (2, 2, 13, 17)"
    using UResNet_forward_odd_example
    by (simp add: UResNet_buffers_init_def DoubleResNet_buffers_init_def Bottleneck_buffers_init_def)
  have hw: "height_of (1, 512, 3, 5) = height_of (1, 512, 3, 5)"
       "width_of (1, 512, 3, 5) = width_of (1, 512, 3, 5)"
       "height_of (1, 256, 3, 5) = height_of (1, 512, 3, 5)"
       "width_of (1, 256, 3, 5) = width_of (1, 512, 3, 5)"
       "height_of (1, 128, 3, 5) = height_of (1, 128, 3, 5)"
       "width_of (1, 128, 3, 5) = width_of (1, 128, 3, 5)"
    using t a b c by blast+
  show ?thesis
    using a b c d e hw by simp
qed

section \<open>The residual block\<close>

text \<open>
  Claim C4, as amended. A \<open>Bottleneck(inplanes, planes, stride)\<close> with positive channel
  counts and a positive stride that either subsamples (\<open>stride > 1\<close>) or keeps the channel
  count (\<open>inplanes = planes\<close>) accepts every input with a batch of at least one,
  \<open>inplanes\<close> channels and positive height and width (in training mode: one whose output
  holds more than one value per channel) and returns \<open>planes\<close> channels and the spatial
  sizes \<open>floor((size - 1) / stride) + 1\<close>. The shortcut is the 1x1 convolution of the
  block's stride exactly when \<open>stride > 1\<close>.
\<close>

theorem Bottleneck_output_shape:
  assumes "0 < inplanes" and "0 < planes"
    and "0 < strd" and "1 < strd \<or> inplanes = planes"
    and "1 \<le> n" and "0 < h" and "0 < w"
    and "training \<longrightarrow> 1 < n * ((h - 1) div strd + 1) * ((w - 1) div strd + 1)"
  shows "fst (Bottleneck_forward training (Bottleneck_init inplanes planes strd) (n, inplanes, h, w) b)
           = Inr (n, planes, (h - 1) div strd + 1, (w - 1) div strd + 1)
         \<and> bk_shortcut (Bottleneck_init inplanes planes strd)
           = (if 1 < strd then Some (Conv2d inplanes planes 1 strd 0 False) else None)"
proof -
  have bn: "training \<longrightarrow> size_prods (n, planes, (h - 1) div strd + 1, (w - 1) div strd + 1) \<noteq> 1"
    using assms(8) by (auto simp: size_prods_def)
  have "Bottleneck_forward training (Bottleneck_init inplanes planes strd) (n, inplanes, h, w) b
          = (Inr (n, planes, (h - 1) div strd + 1, (w - 1) div strd + 1), Bottleneck_bump training b)"
    by (rule Bottleneck_forward_ok[OF assms(1-4) assms(6,7) refl refl bn])
  then show ?thesis by (simp add: Bottleneck_init_def)
qed

text \<open>The first block of an encoder layer of UResNet, in training mode on two 7x9
  images.\<close>

theorem Bottleneck_output_shape_witness:
  "(0::nat) < 16 \<and> (0::nat) < 32 \<and> (0::nat) < 2 \<and> (1::nat) < 2 \<and> (1::nat) \<le> 2
   \<and> (0::nat) < 7 \<and> (0::nat) < 9
   \<and> (1::nat) < 2 * ((7 - 1) div 2 + 1) * ((9 - 1) div 2 + 1)
   \<and> fst (Bottleneck_forward True (Bottleneck_init 16 32 2) (2, 16, 7, 9) Bottleneck_buffers_init)
       = Inr (2, 32, 4, 5)
   \<and> bk_shortcut (Bottleneck_init 16 32 2) = Some (Conv2d 16 32 1 2 0 False)"
  using Bottleneck_output_shape[of 16 32 2 2 7 9 True Bottleneck_buffers_init]
  by simp

text \<open>With stride 1 there is no shortcut, and the input itself is added to the residual:
  2 channels cannot be added to 3, and 4 channels added to 1 broadcast to 4, not to
  \<open>planes = 1\<close>.\<close>

theorem Bottleneck_output_shape_counterexample:
  "fst (Bottleneck_forward False (Bottleneck_init 2 3 1) (1, 2, 4, 4) Bottleneck_buffers_init)
     = Inl Size_mismatch
   \<and> fst (Bottleneck_forward False (Bottleneck_init 4 1 1) (1, 4, 4, 4) Bottleneck_buffers_init)
     = Inr (1, 4, 4, 4)"
  by (simp add: Bottleneck_forward.simps Bottleneck_init_def Bottleneck_buffers_init_def layer_defs
      size_prods_def tensor_add_def broadcast_dim_def)


section \<open>The two networks end to end\<close>

lemma UResNet_forward_ok:
  assumes i: "UResNet_init k c p ss = Inr m" and c: "0 < c" and hw: "0 < h" "0 < w"
    and sz: "h1 = (h + 1) div 2" "h2 = (h1 + 1) div 2" "h3 = (h2 + 1) div 2" "h4 = (h3 + 1) div 2"
            "w1 = (w + 1) div 2" "w2 = (w1 + 1) div 2" "w3 = (w2 + 1) div 2" "w4 = (w3 + 1) div 2"
    and bn: "training \<longrightarrow> size_prods (n, c, h4, w4) \<noteq> 1"
  shows "UResNet_forward training m (n, c, h, w) b = (Inr (n, k, h, w), UResNet_bump training b)"
proof -
  have m: "m = UResNet_initialize (UResNet_layers k c p ss)" and kp: "0 < k" "0 < p"
    using UResNet_init_Inr[OF i] by simp_all
  show ?thesis
    unfolding m UResNet_forward_initialize
    by (rule UResNet_forward_layers_ok[OF c kp hw sz bn])
qed

text \<open>
  Claim C1, as amended. For models built with a positive number of input channels and of
  classes, a batch of at least one, positive height and width divisible by 16, and an
  input with the model's input channels, \<open>UNet.forward\<close> and \<open>UResNet.forward\<close> return
  a tensor of size (batch, classes, H, W), in evaluation mode always and in training mode
  when the deepest feature map, of size (H/16, W/16), holds more than one value per
  channel over the batch. (A UResNet that its constructor returns has a positive number
  of classes and a positive \<open>inplanes\<close>.)
\<close>

theorem forward_output_shape:
  assumes "0 < n_channels" and "0 < n_classes"
    and "1 \<le> n" and "0 < h" and "0 < w" and "16 dvd h" and "16 dvd w"
    and "training \<longrightarrow> 1 < n * (h div 16) * (w div 16)"
  shows "fst (UNet_forward training (UNet_init n_channels n_classes) (n, n_channels, h, w) b)
           = Inr (n, n_classes, h, w)
         \<and> (UResNet_init num_classes n_channels inplanes showsizes = Inr m \<longrightarrow>
             fst (UResNet_forward training m (n, n_channels, h, w) b') = Inr (n, num_classes, h, w))"
proof -
  obtain qh qw where q: "h = 16 * qh" "w = 16 * qw"
    using assms(6,7) by (auto simp: dvd_def)
  have qpos: "0 < qh" "0 < qw" using assms(4,5) q by auto
  have big: "16 \<le> h" "16 \<le> w" using q qpos by auto
  have d16: "h div 16 = qh" "w div 16 = qw" using q by auto
  have bn: "training \<longrightarrow> size_prods (n, n_channels, h div 16, w div 16) \<noteq> 1"
    using assms(8) by (auto simp: size_prods_def)
  have u: "UNet_forward training (UNet_init n_channels n_classes) (n, n_channels, h, w) b
             = (Inr (n, n_classes, h, w), UNet_bump training b)"
    by (rule UNet_forward_ok[OF assms(1,2) big bn])
  have r: "fst (UResNet_forward training m (n, n_channels, h, w) b') = Inr (n, num_classes, h, w)"
    if i: "UResNet_init num_classes n_channels inplanes showsizes = Inr m"
  proof -
    have sz: "8 * qh = (h + 1) div 2" "4 * qh = (8 * qh + 1) div 2" "2 * qh = (4 * qh + 1) div 2"
             "qh = (2 * qh + 1) div 2"
             "8 * qw = (w + 1) div 2" "4 * qw = (8 * qw + 1) div 2" "2 * qw = (4 * qw + 1) div 2"
             "qw = (2 * qw + 1) div 2"
      unfolding q by presburger+
    have bn': "training \<longrightarrow> size_prods (n, n_channels, qh, qw) \<noteq> 1"
      using bn unfolding d16 .
    have "UResNet_forward training m (n, n_channels, h, w) b'
            = (Inr (n, num_classes, h, w), UResNet_bump training b')"
      by (rule UResNet_forward_ok[OF i assms(1) assms(4,5) sz bn'])
    then show ?thesis by simp
  qed
  from u r show ?thesis by simp
qed

text \<open>The two end-to-end examples of the specification and the run in the file's
  \<open>__main__\<close>, on freshly constructed models.\<close>

lemma UNet_example:
  "fst (UNet_forward True (UNet_init 3 5) (1, 3, 128, 128) UNet_buffers_init) = Inr (1, 5, 128, 128)"
proof -
  have "UNet_forward True (UNet_init 3 5) (1, 3, 128, 128) UNet_buffers_init
          = (Inr (1, 5, 128, 128), UNet_bump True UNet_buffers_init)"
    by (rule UNet_forward_ok) (simp_all add: size_prods_def)
  then show ?thesis by simp
qed

lemma main_example:
  assumes "UResNet_init 2 1 16 False = Inr net"
  shows "fst (UResNet_forward True net (32, 1, 192, 224) UResNet_buffers_init) = Inr (32, 2, 192, 224)"
proof -
  have "UResNet_forward True net (32, 1, 192, 224) UResNet_buffers_init
          = (Inr (32, 2, 192, 224), UResNet_bump True UResNet_buffers_init)"
    by (rule UResNet_forward_ok[OF assms, where ?h1.0 = 96 and ?h2.0 = 48 and ?h3.0 = 24 and ?h4.0 = 12
          and ?w1.0 = 112 and ?w2.0 = 56 and ?w3.0 = 28 and ?w4.0 = 14])
       (simp_all add: size_prods_def)
  then show ?thesis by simp
qed

theorem forward_output_shape_witness:
  "(0::nat) < 1 \<and> (0::nat) < 5 \<and> (1::nat) \<le> 2 \<and> (0::nat) < 64 \<and> (16::nat) dvd 64
   \<and> (1::nat) < 2 * (64 div 16) * (64 div 16)
   \<and> UResNet_init 2 1 16 False = Inr (UResNet_initialize (UResNet_layers 2 1 16 False))
   \<and> fst (UNet_forward True (UNet_init 1 5) (2, 1, 64, 64) UNet_buffers_init) = Inr (2, 5, 64, 64)
   \<and> fst (UResNet_forward True (UResNet_initialize (UResNet_layers 2 1 16 False)) (2, 1, 64, 64)
            UResNet_buffers_init) = Inr (2, 2, 64, 64)"
proof -
  have i: "UResNet_init 2 1 16 False = Inr (UResNet_initialize (UResNet_layers 2 1 16 False))"
    by (rule UResNet_init_ok) simp_all
  show ?thesis
    using forward_output_shape[of 1 5 2 64 64 True UNet_buffers_init 2 16 False
        "UResNet_initialize (UResNet_layers 2 1 16 False)" UResNet_buffers_init] i
    by simp
qed


text \<open>A freshly constructed model is in training mode. A single 16x16 image reaches the
  fourth encoder stage as one value per channel, which the batch norm there refuses.\<close>

lemma down_forward_one_value:
  "down_forward True (down_init 512 512) (1, 512, 2, 2) (b1, b4) = (Inl One_value_per_channel, (b1 + 1, b4))"
  by (simp add: down_forward_def down_init_def MaxPool2d_forward_2 double_conv_forward.simps
      double_conv_init_def layer_defs size_prods_def)

lemma DoubleResNet_forward_one_value:
  "fst (DoubleResNet_forward True (DoubleResNet_init 128 256 2) (1, 128, 2, 2) b) = Inl One_value_per_channel"
  by (cases b; cases "fst b"; cases "snd b")
     (simp add: DoubleResNet_forward.simps DoubleResNet_init_def Bottleneck_forward.simps
      Bottleneck_init_def layer_defs size_prods_def)

theorem forward_output_shape_counterexample:
  "fst (UNet_forward True (UNet_init 3 5) (1, 3, 16, 16) UNet_buffers_init) = Inl One_value_per_channel
   \<and> UResNet_init 2 1 16 False = Inr (UResNet_initialize (UResNet_layers 2 1 16 False))
   \<and> fst (UResNet_forward True (UResNet_initialize (UResNet_layers 2 1 16 False)) (1, 1, 16, 16)
            UResNet_buffers_init) = Inl One_value_per_channel"
proof -
  let ?m = "UNet_init 3 5"
  let ?z = "(0, 0) :: double_conv_buffers"
  have s0: "inconv_forward True (inc ?m) (1, 3, 16, 16) ?z = (Inr (1, 64, 16, 16), double_conv_bump True ?z)"
    unfolding UNet_init_sel inconv_forward_def inconv_init_def double_conv.simps inconv.simps
    by (rule double_conv_forward_ok) (simp_all add: size_prods_def)
  have s1: "down_forward True (down1 ?m) (1, 64, 16, 16) ?z = (Inr (1, 128, 16 div 2, 16 div 2), double_conv_bump True ?z)"
    unfolding UNet_init_sel by (rule down_forward_ok) (simp_all add: size_prods_def)
  have s2: "down_forward True (down2 ?m) (1, 128, 8, 8) ?z = (Inr (1, 256, 8 div 2, 8 div 2), double_conv_bump True ?z)"
    unfolding UNet_init_sel by (rule down_forward_ok) (simp_all add: size_prods_def)
  have s3: "down_forward True (down3 ?m) (1, 256, 4, 4) ?z = (Inr (1, 512, 4 div 2, 4 div 2), double_conv_bump True ?z)"
    unfolding UNet_init_sel by (rule down_forward_ok) (simp_all add: size_prods_def)
  have s4: "down_forward True (down4 ?m) (1, 512, 2, 2) ?z = (Inl One_value_per_channel, (0 + 1, 0))"
    unfolding UNet_init_sel by (rule down_forward_one_value)
  have u: "fst (UNet_forward True ?m (1, 3, 16, 16) UNet_buffers_init) = Inl One_value_per_channel"
    using s0 s1 s2 s3 s4
    by (simp add: UNet_forward.simps UNet_buffers_init_def double_conv_buffers_init_def)
  let ?r = "UResNet_layers 2 1 16 False"
  have c3: "\<And>i o' bi. 0 < i \<Longrightarrow> 0 < o' \<Longrightarrow>
      Conv2d_forward (Conv2d i o' 3 1 1 bi) (1, i, 16, 16) = Inr (1, o', 16, 16)"
    by (rule Conv2d_forward_3x3) simp_all
  have bnok: "\<And>c t. BatchNorm2d_forward True (BatchNorm2d_init c) (1, c, 16, 16) t = (Inr (1, c, 16, 16), bump True t)"
    by (rule BatchNorm2d_forward_ok) (simp add: size_prods_def)
  have e1: "DoubleResNet_forward True (DoubleResNet_init 16 32 2) (1, 16, 16, 16) DoubleResNet_buffers_init
       = (Inr (1, 32, 8, 8), DoubleResNet_bump True DoubleResNet_buffers_init)"
    by (rule DoubleResNet_forward_ok) (simp_all add: size_prods_def)
  have e2: "DoubleResNet_forward True (DoubleResNet_init 32 64 2) (1, 32, 8, 8) DoubleResNet_buffers_init
       = (Inr (1, 64, 4, 4), DoubleResNet_bump True DoubleResNet_buffers_init)"
    by (rule DoubleResNet_forward_ok) (simp_all add: size_prods_def)
  have e3: "DoubleResNet_forward True (DoubleResNet_init 64 128 2) (1, 64, 4, 4) DoubleResNet_buffers_init
       = (Inr (1, 128, 2, 2), DoubleResNet_bump True DoubleResNet_buffers_init)"
    by (rule DoubleResNet_forward_ok) (simp_all add: size_prods_def)
  obtain t4 where e4: "DoubleResNet_forward True (DoubleResNet_init 128 256 2) (1, 128, 2, 2)
      DoubleResNet_buffers_init = (Inl One_value_per_channel, t4)"
    using DoubleResNet_forward_one_value[of DoubleResNet_buffers_init] by (metis prod.collapse)
  have r: "fst (UResNet_forward True ?r (1, 1, 16, 16) UResNet_buffers_init) = Inl One_value_per_channel"
    by (simp del: One_nat_def add: UResNet_forward.simps UResNet_buffers_init_def UResNet_layers_sel
        c3 bnok e1 e2 e3 e4 Let_def ReLU_forward_def)
  have i: "UResNet_init 2 1 16 False = Inr (UResNet_initialize (UResNet_layers 2 1 16 False))"
    by (rule UResNet_init_ok) simp_all
  from u r i show ?thesis by (simp only: UResNet_forward_initialize)
qed


section \<open>What a call leaves behind\<close>

lemma BatchNorm2d_forward_buffers:
  "BatchNorm2d_forward training m x t = (r, t') \<Longrightarrow> t' = bump training t"
  by (auto simp: BatchNorm2d_forward_def bump_def Let_def split: if_splits)

lemma double_conv_forward_eval:
  "double_conv_forward False m x b = (r, b') \<Longrightarrow> b' = b"
  by (cases b)
     (auto simp: double_conv_forward.simps bump_def split: sum.splits prod.splits
           dest!: BatchNorm2d_forward_buffers)

lemma double_conv_forward_train:
  "double_conv_forward training m x b = (Inr y, b') \<Longrightarrow> b' = double_conv_bump training b"
  by (cases b)
     (auto simp: double_conv_forward.simps double_conv_bump_def split: sum.splits prod.splits
           dest!: BatchNorm2d_forward_buffers)

lemma down_forward_eval: "down_forward False m x b = (r, b') \<Longrightarrow> b' = b"
  by (auto simp: down_forward_def split: sum.splits dest: double_conv_forward_eval)

lemma down_forward_train:
  "down_forward training m x b = (Inr y, b') \<Longrightarrow> b' = double_conv_bump training b"
  by (auto simp: down_forward_def split: sum.splits dest: double_conv_forward_train)

lemma up_forward_eval: "up_forward False m x1 x2 b = (r, b') \<Longrightarrow> b' = b"
  by (auto simp: up_forward_def split: sum.splits dest: double_conv_forward_eval)

lemma up_forward_train:
  "up_forward training m x1 x2 b = (Inr y, b') \<Longrightarrow> b' = double_conv_bump training b"
  by (auto simp: up_forward_def split: sum.splits dest: double_conv_forward_train)

lemma inconv_forward_eval: "inconv_forward False m x b = (r, b') \<Longrightarrow> b' = b"
  by (auto simp: inconv_forward_def dest: double_conv_forward_eval)

lemma inconv_forward_train:
  "inconv_forward training m x b = (Inr y, b') \<Longrightarrow> b' = double_conv_bump training b"
  by (auto simp: inconv_forward_def dest: double_conv_forward_train)

lemma UNet_forward_eval:
  assumes "UNet_forward False m x b = (r, b')"
  shows "b' = b"
proof -
  obtain b0 d1 d2 d3 d4 u1 u2 u3 u4 where b: "b = (b0, d1, d2, d3, d4, u1, u2, u3, u4)"
    by (cases b) auto
  show ?thesis
    using assms unfolding b
    by (auto simp: UNet_forward.simps split: sum.splits prod.splits
        dest!: inconv_forward_eval down_forward_eval up_forward_eval)
qed

lemma UNet_forward_train:
  assumes "UNet_forward training m x b = (Inr y, b')"
  shows "b' = UNet_bump training b"
proof -
  obtain b0 d1 d2 d3 d4 u1 u2 u3 u4 where b: "b = (b0, d1, d2, d3, d4, u1, u2, u3, u4)"
    by (cases b) auto
  show ?thesis
    using assms unfolding b
    by (auto simp: UNet_forward.simps UNet_bump_def split: sum.splits prod.splits
        dest!: inconv_forward_train down_forward_train up_forward_train)
qed


lemma BatchNorm2d_forward_eval: "BatchNorm2d_forward False m x t = (r, t') \<Longrightarrow> t' = t"
  by (auto simp: bump_def dest: BatchNorm2d_forward_buffers)

lemma Bottleneck_forward_eval: "Bottleneck_forward False m x b = (r, b') \<Longrightarrow> b' = b"
  by (cases b)
     (auto simp: Bottleneck_forward.simps split: sum.splits prod.splits
           dest!: BatchNorm2d_forward_eval)

lemma Bottleneck_forward_train:
  "Bottleneck_forward training m x b = (Inr y, b') \<Longrightarrow> b' = Bottleneck_bump training b"
  by (cases b)
     (auto simp: Bottleneck_forward.simps Bottleneck_bump_def split: sum.splits prod.splits
           dest!: BatchNorm2d_forward_buffers)

lemma DoubleResNet_forward_eval: "DoubleResNet_forward False m x b = (r, b') \<Longrightarrow> b' = b"
  by (cases b)
     (auto simp: DoubleResNet_forward.simps split: sum.splits prod.splits
           dest!: Bottleneck_forward_eval)

lemma DoubleResNet_forward_train:
  "DoubleResNet_forward training m x b = (Inr y, b') \<Longrightarrow> b' = DoubleResNet_bump training b"
  by (cases b)
     (auto simp: DoubleResNet_forward.simps DoubleResNet_bump_def split: sum.splits prod.splits
           dest!: Bottleneck_forward_train)

lemma ConvTransposeLayer_forward_eval:
  "ConvTransposeLayer_forward False m x t b = (r, b') \<Longrightarrow> b' = b"
  by (auto simp: ConvTransposeLayer_forward_def split: sum.splits prod.splits
           dest!: Bottleneck_forward_eval)

lemma ConvTransposeLayer_forward_train:
  "ConvTransposeLayer_forward training m x t b = (Inr y, b') \<Longrightarrow> b' = Bottleneck_bump training b"
  by (auto simp: ConvTransposeLayer_forward_def split: sum.splits prod.splits
           dest!: Bottleneck_forward_train)

lemma UResNet_forward_eval:
  assumes "UResNet_forward False m x b = (r, b')"
  shows "b' = b"
proof -
  obtain s1 s2 s3 e1 e2 e3 e4 d4 d3 d2 d1 s10 s11 s12
    where b: "b = (s1, s2, s3, e1, e2, e3, e4, d4, d3, d2, d1, s10, s11, s12)"
    by (cases b) auto
  show ?thesis
    using assms unfolding b
    by (auto simp: UResNet_forward.simps Let_def split: sum.splits prod.splits
        dest!: BatchNorm2d_forward_eval DoubleResNet_forward_eval ConvTransposeLayer_forward_eval)
qed

lemma UResNet_forward_train:
  assumes "UResNet_forward training m x b = (Inr y, b')"
  shows "b' = UResNet_bump training b"
proof -
  obtain s1 s2 s3 e1 e2 e3 e4 d4 d3 d2 d1 s10 s11 s12
    where b: "b = (s1, s2, s3, e1, e2, e3, e4, d4, d3, d2, d1, s10, s11, s12)"
    by (cases b) auto
  show ?thesis
    using assms unfolding b
    by (auto simp: UResNet_forward.simps UResNet_bump_def Let_def split: sum.splits prod.splits
        dest!: BatchNorm2d_forward_buffers DoubleResNet_forward_train ConvTransposeLayer_forward_train)
qed


text \<open>
  Claim C8, as amended. In evaluation mode a forward call of UNet or UResNet returns the
  buffers it was given, whatever the model and the input. In training mode a forward call
  that returns a tensor has advanced the tracking buffers of every batch-norm layer by one
  batch; nothing else is threaded through a call.
\<close>

theorem forward_changes_only_tracking_buffers:
  "snd (UNet_forward False m x b) = b
   \<and> snd (UResNet_forward False m' x' b') = b'
   \<and> (fst (UNet_forward True m x b) = Inr y \<longrightarrow>
        snd (UNet_forward True m x b) = UNet_bump True b)
   \<and> (fst (UResNet_forward True m' x' b') = Inr y' \<longrightarrow>
        snd (UResNet_forward True m' x' b') = UResNet_bump True b')"
proof -
  have "snd (UNet_forward False m x b) = b"
    by (rule UNet_forward_eval[of m x b "fst (UNet_forward False m x b)"]) simp
  moreover have "snd (UResNet_forward False m' x' b') = b'"
    by (rule UResNet_forward_eval[of m' x' b' "fst (UResNet_forward False m' x' b')"]) simp
  moreover have "snd (UNet_forward True m x b) = UNet_bump True b"
    if "fst (UNet_forward True m x b) = Inr y"
    by (rule UNet_forward_train[of True m x b y]) (simp add: that[symmetric])
  moreover have "snd (UResNet_forward True m' x' b') = UResNet_bump True b'"
    if "fst (UResNet_forward True m' x' b') = Inr y'"
    by (rule UResNet_forward_train[of True m' x' b' y']) (simp add: that[symmetric])
  ultimately show ?thesis by blast
qed

lemma UNet_bump_init:
  "UNet_bump True UNet_buffers_init =
     ((1, 1), (1, 1), (1, 1), (1, 1), (1, 1), (1, 1), (1, 1), (1, 1), (1, 1))"
  by (simp add: UNet_bump_def UNet_buffers_init_def double_conv_bump_def double_conv_buffers_init_def
      bump_def)

lemma UResNet_bump_init:
  "UResNet_bump True UResNet_buffers_init =
     (1, 1, 1,
      ((1, 1, 1), (1, 1, 1)), ((1, 1, 1), (1, 1, 1)), ((1, 1, 1), (1, 1, 1)), ((1, 1, 1), (1, 1, 1)),
      (1, 1, 1), (1, 1, 1), (1, 1, 1), (1, 1, 1),
      1, 1, 1)"
  by (simp add: UResNet_bump_def UResNet_buffers_init_def DoubleResNet_bump_def
      DoubleResNet_buffers_init_def Bottleneck_bump_def Bottleneck_buffers_init_def bump_def)

lemma UNet_forward_example:
  "UNet_forward True (UNet_init 3 2) (2, 3, 16, 16) UNet_buffers_init
     = (Inr (2, 2, 16, 16), UNet_bump True UNet_buffers_init)"
  by (rule UNet_forward_ok) (simp_all add: size_prods_def)

lemma UResNet_forward_example:
  "UResNet_forward True (UResNet_initialize (UResNet_layers 2 1 16 False)) (2, 1, 16, 16)
       UResNet_buffers_init
     = (Inr (2, 2, 16, 16), UResNet_bump True UResNet_buffers_init)"
  unfolding UResNet_forward_initialize
  by (rule UResNet_forward_layers_ok[where ?h1.0 = 8 and ?h2.0 = 4 and ?h3.0 = 2 and ?h4.0 = 1
        and ?w1.0 = 8 and ?w2.0 = 4 and ?w3.0 = 2 and ?w4.0 = 1])
     (simp_all add: size_prods_def)

theorem forward_changes_only_tracking_buffers_witness:
  "fst (UNet_forward True (UNet_init 3 2) (2, 3, 16, 16) UNet_buffers_init) = Inr (2, 2, 16, 16)
   \<and> snd (UNet_forward True (UNet_init 3 2) (2, 3, 16, 16) UNet_buffers_init)
       = ((1, 1), (1, 1), (1, 1), (1, 1), (1, 1), (1, 1), (1, 1), (1, 1), (1, 1))
   \<and> fst (UResNet_forward True (UResNet_initialize (UResNet_layers 2 1 16 False)) (2, 1, 16, 16)
            UResNet_buffers_init) = Inr (2, 2, 16, 16)
   \<and> snd (UResNet_forward True (UResNet_initialize (UResNet_layers 2 1 16 False)) (2, 1, 16, 16)
            UResNet_buffers_init)
       = (1, 1, 1,
          ((1, 1, 1), (1, 1, 1)), ((1, 1, 1), (1, 1, 1)), ((1, 1, 1), (1, 1, 1)), ((1, 1, 1), (1, 1, 1)),
          (1, 1, 1), (1, 1, 1), (1, 1, 1), (1, 1, 1),
          1, 1, 1)"
proof -
  have a: "fst (UNet_forward True (UNet_init 3 2) (2, 3, 16, 16) UNet_buffers_init) = Inr (2, 2, 16, 16)"
    by (simp only: UNet_forward_example fst_conv)
  have b: "fst (UResNet_forward True (UResNet_initialize (UResNet_layers 2 1 16 False)) (2, 1, 16, 16)
            UResNet_buffers_init) = Inr (2, 2, 16, 16)"
    by (simp only: UResNet_forward_example fst_conv)
  show ?thesis
    using forward_changes_only_tracking_buffers[of "UNet_init 3 2" "(2, 3, 16, 16)" UNet_buffers_init
        "UResNet_initialize (UResNet_layers 2 1 16 False)" "(2, 1, 16, 16)" UResNet_buffers_init
        "(2, 2, 16, 16)" "(2, 2, 16, 16)"] a b
    by (simp only: UNet_bump_init UResNet_bump_init)
qed

text \<open>After one call on a freshly constructed model (training mode) the buffers are not
  the ones the call found: a second call on the same input meets another module state.\<close>

theorem forward_changes_only_tracking_buffers_counterexample:
  "snd (UNet_forward True (UNet_init 3 2) (2, 3, 16, 16) UNet_buffers_init) \<noteq> UNet_buffers_init
   \<and> snd (UResNet_forward True (UResNet_initialize (UResNet_layers 2 1 16 False)) (2, 1, 16, 16)
            UResNet_buffers_init) \<noteq> UResNet_buffers_init"
  by (simp only: UNet_forward_example UResNet_forward_example snd_conv UNet_bump_init UResNet_bump_init)
     (simp add: UNet_buffers_init_def UResNet_buffers_init_def double_conv_buffers_init_def)


section \<open>Initialisation of the two models\<close>

lemma spec_initialised_conv: "spec_initialised (Conv2d_layer (initialize_conv m))"
  by (simp add: spec_initialised.simps initialize_conv_def init_n_def)

lemma spec_initialised_deconv: "spec_initialised (ConvTranspose2d_layer (initialize_conv m))"
  by (simp add: spec_initialised.simps initialize_conv_def init_n_def)

lemma spec_initialised_bn: "spec_initialised (BatchNorm2d_layer (initialize_bn m))"
  by (simp add: spec_initialised.simps initialize_bn_def)

lemma spec_initialised_other: "spec_initialised Other_layer"
  by (simp add: spec_initialised.simps)

lemmas spec_initialised_layers = spec_initialised_conv spec_initialised_deconv spec_initialised_bn
  spec_initialised_other

lemma Bottleneck_modules_initialised:
  "\<forall>l \<in> set (Bottleneck_modules (Bottleneck_initialize m)). spec_initialised l"
  by (cases "bk_shortcut m")
     (simp_all add: Bottleneck_modules_def Bottleneck_initialize_def spec_initialised_layers)

lemma DoubleResNet_modules_initialised:
  "\<forall>l \<in> set (DoubleResNet_modules (DoubleResNet_initialize m)). spec_initialised l"
  using Bottleneck_modules_initialised
  by (auto simp: DoubleResNet_modules_def DoubleResNet_initialize_def)

lemma ConvTransposeLayer_modules_initialised:
  "\<forall>l \<in> set (ConvTransposeLayer_modules (ConvTransposeLayer_initialize m)). spec_initialised l"
  using Bottleneck_modules_initialised
  by (auto simp: ConvTransposeLayer_modules_def ConvTransposeLayer_initialize_def spec_initialised_layers)

lemma UResNet_modules_initialised:
  "\<forall>l \<in> set (UResNet_modules (UResNet_initialize m)). spec_initialised l"
  using DoubleResNet_modules_initialised ConvTransposeLayer_modules_initialised
  by (auto simp: UResNet_modules_def UResNet_initialize_def spec_initialised_layers)

text \<open>A UNet: every batch norm holds ones and zeros, as the rule asks; every convolution
  holds the draw of its own \<open>reset_parameters\<close>, not the rule's normal distribution.\<close>

lemma double_conv_modules_default:
  "\<forall>l \<in> set (double_conv_modules (double_conv_init i o')).
     if is_convolution l then framework_initialised l \<and> \<not> spec_initialised l else spec_initialised l"
  by (simp add: double_conv_modules_def double_conv_init_def Conv2d_def BatchNorm2d_init_def
      spec_initialised.simps)

lemma down_modules_default:
  "\<forall>l \<in> set (down_modules (down_init i o')).
     if is_convolution l then framework_initialised l \<and> \<not> spec_initialised l else spec_initialised l"
  using double_conv_modules_default[of i o']
  by (simp add: down_modules_def down_init_def spec_initialised.simps)

lemma up_modules_default:
  "\<forall>l \<in> set (up_modules (up_init i o' bl)).
     if is_convolution l then framework_initialised l \<and> \<not> spec_initialised l else spec_initialised l"
  using double_conv_modules_default[of i o']
  by (simp add: up_modules_def up_init_def ConvTranspose2d_def spec_initialised.simps)

lemma UNet_modules_default:
  "\<forall>l \<in> set (UNet_modules (UNet_init c k)).
     if is_convolution l then framework_initialised l \<and> \<not> spec_initialised l else spec_initialised l"
proof -
  have o: "framework_initialised (Conv2d_layer (Conv2d 64 k 1 1 0 True))
           \<and> \<not> spec_initialised (Conv2d_layer (Conv2d 64 k 1 1 0 True))"
    by (simp add: Conv2d_def spec_initialised.simps)
  show ?thesis
    using double_conv_modules_default[of c 64] down_modules_default[of 64 128]
      down_modules_default[of 128 256] down_modules_default[of 256 512]
      down_modules_default[of 512 512] up_modules_default[of 1024 256 True]
      up_modules_default[of 512 128 True] up_modules_default[of 256 64 True]
      up_modules_default[of 128 64 True] o
    by (auto simp: UNet_modules_def UNet_init_sel inconv_init_def outconv_init_def)
qed

text \<open>
  Claim C3, as amended. In a constructed UResNet every convolution and transposed
  convolution weight was last filled by \<open>normal_(0, sqrt(2 / n))\<close> with \<open>n\<close> the kernel
  area times the output channels, and every batch norm has its weight filled with 1 and
  its bias with 0. In a UNet every batch norm has its weight all ones and its bias all
  zeros as well, which is how the framework's constructor leaves a batch norm; but
  \<open>UNet.__init__\<close> has no initialisation loop, and every convolution of a UNet keeps
  the weight its own constructor drew, which is not the rule's normal distribution.
\<close>

theorem weight_initialisation:
  "(UResNet_init num_classes input_channels inplanes showsizes = Inr m \<longrightarrow>
      (\<forall>l \<in> set (UResNet_modules m). spec_initialised l))
   \<and> (\<forall>l \<in> set (UNet_modules (UNet_init n_channels n_classes)).
        if is_convolution l then framework_initialised l \<and> \<not> spec_initialised l
        else spec_initialised l)"
  using UResNet_init_Inr[of num_classes input_channels inplanes showsizes m]
    UResNet_modules_initialised[of "UResNet_layers num_classes input_channels inplanes showsizes"]
    UNet_modules_default[of n_channels n_classes]
  by blast

text \<open>The first convolution of a UNet is one of its layers and does not carry the
  specification's rule.\<close>

theorem weight_initialisation_counterexample:
  "Conv2d_layer (conv_0 (inconv_conv (inc (UNet_init 3 2)))) \<in> set (UNet_modules (UNet_init 3 2))
   \<and> \<not> spec_initialised (Conv2d_layer (conv_0 (inconv_conv (inc (UNet_init 3 2)))))"
  by (simp add: UNet_modules_def double_conv_modules_def UNet_init_sel inconv_init_def
      double_conv_init_def Conv2d_def spec_initialised.simps)

text \<open>The last convolution of a UResNet(2, 1, 16), and the last convolution and the first
  batch norm of a UNet(3, 2).\<close>

theorem weight_initialisation_witness:
  "UResNet_init 2 1 16 False = Inr (UResNet_initialize (UResNet_layers 2 1 16 False))
   \<and> Conv2d_layer (conv13 (UResNet_initialize (UResNet_layers 2 1 16 False)))
       \<in> set (UResNet_modules (UResNet_initialize (UResNet_layers 2 1 16 False)))
   \<and> weight (conv13 (UResNet_initialize (UResNet_layers 2 1 16 False)))
       = Normal_init 0 (sqrt (2 / (real (1 * 1) * real 2)))
   \<and> Conv2d_layer (outconv_conv (outc (UNet_init 3 2))) \<in> set (UNet_modules (UNet_init 3 2))
   \<and> weight (outconv_conv (outc (UNet_init 3 2))) = Reset_parameters
   \<and> BatchNorm2d_layer (conv_1 (inconv_conv (inc (UNet_init 3 2)))) \<in> set (UNet_modules (UNet_init 3 2))
   \<and> bn_weight (conv_1 (inconv_conv (inc (UNet_init 3 2)))) = Fill_init 1
   \<and> bn_bias (conv_1 (inconv_conv (inc (UNet_init 3 2)))) = Fill_init 0"
proof -
  let ?m = "UResNet_initialize (UResNet_layers 2 1 16 False)"
  have i: "UResNet_init 2 1 16 False = Inr ?m"
    by (rule UResNet_init_ok) simp_all
  have a: "Conv2d_layer (conv13 ?m) \<in> set (UResNet_modules ?m)"
    by (simp add: UResNet_modules_def)
  have b: "Conv2d_layer (outconv_conv (outc (UNet_init 3 2))) \<in> set (UNet_modules (UNet_init 3 2))"
    by (simp add: UNet_modules_def)
  have c: "BatchNorm2d_layer (conv_1 (inconv_conv (inc (UNet_init 3 2)))) \<in> set (UNet_modules (UNet_init 3 2))"
    by (simp add: UNet_modules_def double_conv_modules_def)
  have k: "kernel_size (conv13 ?m) = (1, 1)" "out_channels (conv13 ?m) = 2"
    by (simp_all add: UResNet_initialize_def initialize_conv_sel UResNet_layers_sel Conv2d_def)
  note t = weight_initialisation[of 2 1 16 False ?m 3 2]
  have s: "spec_initialised (Conv2d_layer (conv13 ?m))"
    using t i a by blast
  have u: "\<And>l. l \<in> set (UNet_modules (UNet_init 3 2)) \<Longrightarrow>
      (if is_convolution l then framework_initialised l \<and> \<not> spec_initialised l else spec_initialised l)"
    using t by blast
  have f: "framework_initialised (Conv2d_layer (outconv_conv (outc (UNet_init 3 2))))"
    using u[OF b] by simp
  have n: "spec_initialised (BatchNorm2d_layer (conv_1 (inconv_conv (inc (UNet_init 3 2)))))"
    using u[OF c] by simp
  show ?thesis using i a b c k s f n by (simp add: spec_initialised.simps)
qed


end
